theory Spec2Isabelle
  imports Complex_Main
begin

section \<open>Values exchanged by the relay\<close>

text \<open>
  The server (\<^verbatim>\<open>server.js\<close>) is an Express application with four handlers that matter
  here: \<^verbatim>\<open>POST /api/chat\<close>, \<^verbatim>\<open>POST /admin/login\<close>, the middleware
  \<^verbatim>\<open>verifyAdminSession\<close>, and the two readers \<^verbatim>\<open>GET /admin/account\<close> and
  \<^verbatim>\<open>GET /admin/usage\<close>. The usage reader computes with IEEE-754 doubles
  (\<^verbatim>\<open>limit - usage\<close>, \<^verbatim>\<open>(usage / limit) * 100\<close>, \<^verbatim>\<open>toFixed(2)\<close>); that arithmetic
  is not modelled here, and the usage reader is left out.

  Request and response bodies are JSON. A parsed JSON value is modelled by the datatype
  below. JSON numbers are modelled as exact rationals (IEEE rounding of doubles is not
  modelled); a JSON object is an association list read with \<open>map_of\<close>.
  JavaScript strings are modelled by their UTF-8 bytes (\<open>string\<close> is \<open>char list\<close>,
  one \<open>char\<close> per byte). JavaScript's \<^verbatim>\<open>undefined\<close> is \<open>None\<close> of an option type.
\<close>

datatype json =
    JNull
  | JBool bool
  | JNum rat
  | JStr string
  | JArr "json list"
  | JObj "(string \<times> json) list"

text \<open>
  Property access \<^verbatim>\<open>v.name\<close> on a value that is neither \<^verbatim>\<open>null\<close> nor
  \<^verbatim>\<open>undefined\<close>. Only the names that the handlers read are ever looked up
  (\<^verbatim>\<open>messages\<close>, \<^verbatim>\<open>temperature\<close>, \<^verbatim>\<open>top_p\<close>, \<^verbatim>\<open>username\<close>, \<^verbatim>\<open>password\<close>,
  \<^verbatim>\<open>data\<close>, \<^verbatim>\<open>label\<close>, \<^verbatim>\<open>usage\<close>, \<^verbatim>\<open>limit\<close>, \<^verbatim>\<open>is_free_tier\<close>,
  \<^verbatim>\<open>rate_limit\<close>); none of them exists on the prototypes of strings, numbers, booleans
  or arrays, so those values answer \<^verbatim>\<open>undefined\<close>.
\<close>

fun property :: "json \<Rightarrow> string \<Rightarrow> json option" where
  "property (JObj kvs) k = map_of kvs k"
| "property _ k = None"

text \<open>Process-wide configuration, read from \<^verbatim>\<open>process.env\<close>.\<close>

record config =
  FRONTEND_API_KEY :: string
  API_URL :: string
  OPENROUTER_API_KEY :: string
  MODEL :: string
  ADMIN_USERNAME :: string
  ADMIN_PASSWORD :: string

text \<open>
  An inbound request: the two headers the handlers read (\<^verbatim>\<open>undefined\<close> when the header
  is not sent) and \<^verbatim>\<open>req.body\<close> as left by the \<^verbatim>\<open>express.json()\<close> middleware
  (\<^verbatim>\<open>undefined\<close> when the middleware parsed nothing and left the field unset; in its
  default strict mode the middleware passes only objects and arrays on).
\<close>

record request =
  x_api_key :: "string option"
  authorization :: "string option"
  body :: "json option"

record http_reply =
  status :: nat
  content :: json

text \<open>
  One outbound \<^verbatim>\<open>fetch\<close>: URL, method, the two headers set by the code, and the
  JSON text of the body as a JSON value (\<open>None\<close> for a request without body).
\<close>

record upstream_call =
  url :: string
  http_method :: string
  auth_header :: string
  content_type :: string
  payload :: "json option"

text \<open>
  What the awaited \<^verbatim>\<open>fetch\<close> gives back: the promise rejects (with an error
  message), or it resolves to a response with a status and a body; \<^verbatim>\<open>response.json()\<close>
  on that body either rejects (\<open>Inl\<close>, with the parser's message) or yields the parsed
  value (\<open>Inr\<close>).
\<close>

datatype upstream_reply =
    FetchFailed string
  | Fetched nat "string + json"

type_synonym upstream = "upstream_call \<Rightarrow> upstream_reply"

text \<open>\<^verbatim>\<open>response.ok\<close>: the status is in the range 200 to 299.\<close>

definition ok :: "nat \<Rightarrow> bool" where
  "ok st \<longleftrightarrow> 200 \<le> st \<and> st \<le> 299"

text \<open>
  A line written with \<^verbatim>\<open>console.error\<close>: the label, the time of the entry in epoch
  milliseconds where the code records one, and the error message.
\<close>

datatype log_entry =
    ProxyError int string
  | AdminAccountError string
  | AdminUsageError string

text \<open>
  The result of running a handler: the reply sent to the caller, the outbound calls made
  (in order) and the lines logged.
\<close>

record outcome =
  reply :: http_reply
  calls :: "upstream_call list"
  logged :: "log_entry list"

subsection \<open>Numbers as text\<close>

text \<open>
  Conversion of an integral Number to a string, as a template literal does it:
  decimal digits, with a leading minus sign for negative values. (Beyond \<open>10\<^sup>2\<^sup>1\<close>
  JavaScript switches to exponent notation; statuses and \<^verbatim>\<open>Date.now()\<close> stay far below.)
\<close>

definition digit_char :: "nat \<Rightarrow> char" where
  "digit_char d = char_of (48 + d)"

fun nat_to_string :: "nat \<Rightarrow> string" where
  "nat_to_string n =
     (if n < 10 then [digit_char n] else nat_to_string (n div 10) @ [digit_char (n mod 10)])"

declare nat_to_string.simps [simp del]

definition number_to_string :: "int \<Rightarrow> string" where
  "number_to_string i =
     (if i < 0 then CHR ''-'' # nat_to_string (nat (- i)) else nat_to_string (nat i))"

section \<open>The chat relay: \<^verbatim>\<open>POST /api/chat\<close>\<close>

text \<open>
  \<^verbatim>\<open>
  app.post("/api/chat", async (req, res) => {
    try {
      const authHeader = req.headers["x-api-key"];
      if (!authHeader || authHeader !== process.env.FRONTEND_API_KEY) {
        return res.status(401).json({ error: "Unauthorized" });
      }
      const { messages, temperature = 0.8, top_p = 1 } = req.body;
      const response = await fetch(process.env.API_URL, { method: "POST", headers: {...},
        body: JSON.stringify({ model: process.env.MODEL, messages, temperature, top_p }) });
      if (!response.ok) { throw new Error(`OpenRouter API error: ${response.status}`); }
      const data = await response.json();
      res.json(data);
    } catch (error) {
      console.error("API Proxy Error (no user data logged):", {...});
      res.status(500).json({ error: "Internal server error" });
    }
  });
  \<close>
\<close>

definition unauthorized :: http_reply where
  "unauthorized = \<lparr>status = 401, content = JObj [(''error'', JStr ''Unauthorized'')]\<rparr>"

definition internal_server_error :: http_reply where
  "internal_server_error =
     \<lparr>status = 500, content = JObj [(''error'', JStr ''Internal server error'')]\<rparr>"

text \<open>The \<^verbatim>\<open>catch\<close> clause of the chat handler: log the message, answer 500.\<close>

definition chat_caught :: "int \<Rightarrow> string \<Rightarrow> upstream_call list \<Rightarrow> outcome" where
  "chat_caught now msg cs =
     \<lparr>reply = internal_server_error, calls = cs, logged = [ProxyError now msg]\<rparr>"

text \<open>
  A destructuring default (\<^verbatim>\<open>temperature = 0.8\<close>) applies exactly when the property
  is \<^verbatim>\<open>undefined\<close>; a property that is present, even as \<^verbatim>\<open>null\<close>, is kept.
\<close>

definition with_default :: "json option \<Rightarrow> json \<Rightarrow> json" where
  "with_default v d = (case v of None \<Rightarrow> d | Some x \<Rightarrow> x)"

text \<open>
  \<^verbatim>\<open>JSON.stringify({model, messages, temperature, top_p})\<close>: a property whose value is
  \<^verbatim>\<open>undefined\<close> is left out of the text.
\<close>

definition chat_payload :: "config \<Rightarrow> json option \<Rightarrow> json \<Rightarrow> json \<Rightarrow> json" where
  "chat_payload cfg messages temperature top_p =
     JObj ([(''model'', JStr (MODEL cfg))]
           @ (case messages of None \<Rightarrow> [] | Some m \<Rightarrow> [(''messages'', m)])
           @ [(''temperature'', temperature), (''top_p'', top_p)])"

definition chat_call :: "config \<Rightarrow> json \<Rightarrow> upstream_call" where
  "chat_call cfg b =
     \<lparr>url = API_URL cfg,
      http_method = ''POST'',
      auth_header = ''Bearer '' @ OPENROUTER_API_KEY cfg,
      content_type = ''application/json'',
      payload = Some (chat_payload cfg (property b ''messages'')
                        (with_default (property b ''temperature'') (JNum (4 / 5)))
                        (with_default (property b ''top_p'') (JNum 1)))\<rparr>"

definition chat_handler :: "config \<Rightarrow> int \<Rightarrow> upstream \<Rightarrow> request \<Rightarrow> outcome" where
  "chat_handler cfg now upstream req =
     (case x_api_key req of
        None \<Rightarrow> \<lparr>reply = unauthorized, calls = [], logged = []\<rparr>
      | Some authHeader \<Rightarrow>
          if authHeader = [] \<or> authHeader \<noteq> FRONTEND_API_KEY cfg
          then \<lparr>reply = unauthorized, calls = [], logged = []\<rparr>
          else
            (case body req of
               None \<Rightarrow> chat_caught now
                 ''Cannot destructure property 'messages' of 'req.body' as it is undefined.'' []
             | Some JNull \<Rightarrow> chat_caught now
                 ''Cannot destructure property 'messages' of 'req.body' as it is null.'' []
             | Some b \<Rightarrow>
            (let call = chat_call cfg b in
             case upstream call of
               FetchFailed msg \<Rightarrow> chat_caught now msg [call]
             | Fetched st bd \<Rightarrow>
                 if \<not> ok st
                 then chat_caught now
                        (''OpenRouter API error: '' @ number_to_string (int st)) [call]
                 else
                   (case bd of
                      Inl msg \<Rightarrow> chat_caught now msg [call]
                    | Inr data \<Rightarrow>
                        \<lparr>reply = \<lparr>status = 200, content = data\<rparr>,
                         calls = [call], logged = []\<rparr>))))"

text \<open>
  Test fixtures: a configuration, an upstream that gives the same answer to every call,
  and requests to the chat endpoint.
\<close>

definition demo_config :: config where
  "demo_config =
     \<lparr>FRONTEND_API_KEY = ''frontend-secret'',
      API_URL = ''https://openrouter.ai/api/v1/chat/completions'',
      OPENROUTER_API_KEY = ''sk-or-v1-key'',
      MODEL = ''some/model'',
      ADMIN_USERNAME = ''admin'',
      ADMIN_PASSWORD = ''hunter2''\<rparr>"

definition always :: "upstream_reply \<Rightarrow> upstream" where
  "always r = (\<lambda>c. r)"

definition demo_messages :: json where
  "demo_messages = JArr [JObj [(''role'', JStr ''user''), (''content'', JStr ''hello'')]]"

definition demo_completion :: json where
  "demo_completion = JObj [(''id'', JStr ''gen-1''), (''choices'', JArr [])]"

definition chat_request :: "string option \<Rightarrow> json \<Rightarrow> request" where
  "chat_request key b = \<lparr>x_api_key = key, authorization = None, body = Some b\<rparr>"

definition bodiless_request :: "string option \<Rightarrow> request" where
  "bodiless_request key = \<lparr>x_api_key = key, authorization = None, body = None\<rparr>"

section \<open>The admin session: \<^verbatim>\<open>POST /admin/login\<close> and \<^verbatim>\<open>verifyAdminSession\<close>\<close>

subsection \<open>Base64, as \<^verbatim>\<open>Buffer\<close> encodes and decodes it\<close>

text \<open>
  \<^verbatim>\<open>Buffer.from(text).toString("base64")\<close>: the UTF-8 bytes of the text, three bytes to
  four characters of the alphabet \<^verbatim>\<open>A-Z a-z 0-9 + /\<close>, padded with \<^verbatim>\<open>=\<close>.
  The character of index \<open>n\<close>: \<^verbatim>\<open>A\<close> is byte 65, \<^verbatim>\<open>a\<close> is byte 97 = 71 + 26,
  \<^verbatim>\<open>0\<close> is byte 48 = 52 - 4.
\<close>

definition b64_char :: "nat \<Rightarrow> char" where
  "b64_char n =
     (if n < 26 then char_of (65 + n)
      else if n < 52 then char_of (71 + n)
      else if n < 62 then char_of (n - 4)
      else if n = 62 then CHR ''+'' else CHR ''/'')"

fun base64_encode :: "string \<Rightarrow> string" where
  "base64_encode (a # b # c # rest) =
     (let x = of_char a :: nat; y = of_char b :: nat; z = of_char c :: nat in
      [b64_char (x div 4), b64_char ((x mod 4) * 16 + y div 16),
       b64_char ((y mod 16) * 4 + z div 64), b64_char (z mod 64)]) @ base64_encode rest"
| "base64_encode [a, b] =
     (let x = of_char a :: nat; y = of_char b :: nat in
      [b64_char (x div 4), b64_char ((x mod 4) * 16 + y div 16),
       b64_char ((y mod 16) * 4), CHR ''=''])"
| "base64_encode [a] =
     (let x = of_char a :: nat in
      [b64_char (x div 4), b64_char ((x mod 4) * 16), CHR ''='', CHR ''=''])"
| "base64_encode [] = []"

text \<open>
  \<^verbatim>\<open>Buffer.from(token, "base64")\<close> never fails on a string. Node's decoder accepts the
  standard and the URL-safe alphabet, skips every other character, and stops at the first
  \<^verbatim>\<open>=\<close>; the six-bit values read so far are packed into bytes, and bits that do not fill
  a byte are dropped.
\<close>

definition unbase64 :: "char \<Rightarrow> nat option" where
  "unbase64 ch =
     (let c = of_char ch :: nat in
      if 65 \<le> c \<and> c \<le> 90 then Some (c - 65)
      else if 97 \<le> c \<and> c \<le> 122 then Some (c - 71)
      else if 48 \<le> c \<and> c \<le> 57 then Some (c + 4)
      else if ch = CHR ''+'' \<or> ch = CHR ''-'' then Some 62
      else if ch = CHR ''/'' \<or> ch = CHR ''_'' then Some 63
      else None)"

definition sextets :: "string \<Rightarrow> nat list" where
  "sextets s = List.map_filter unbase64 (takeWhile (\<lambda>ch. ch \<noteq> CHR ''='') s)"

fun bytes_of_sextets :: "nat list \<Rightarrow> string" where
  "bytes_of_sextets (p # q # r # s # rest) =
     [char_of (p * 4 + q div 16), char_of ((q mod 16) * 16 + r div 4),
      char_of ((r mod 4) * 64 + s)] @ bytes_of_sextets rest"
| "bytes_of_sextets [p, q, r] =
     [char_of (p * 4 + q div 16), char_of ((q mod 16) * 16 + r div 4)]"
| "bytes_of_sextets [p, q] = [char_of (p * 4 + q div 16)]"
| "bytes_of_sextets _ = []"

definition base64_decode :: "string \<Rightarrow> string" where
  "base64_decode s = bytes_of_sextets (sextets s)"

subsection \<open>Bytes to text: \<^verbatim>\<open>buf.toString()\<close>\<close>

text \<open>
  \<^verbatim>\<open>toString()\<close> decodes the bytes as UTF-8 and never fails: every maximal ill-formed
  run of bytes becomes one U+FFFD. With strings modelled by their UTF-8 bytes, the result
  is the input with each such run replaced by the three bytes \<open>EF BF BD\<close>; a well-formed
  sequence is kept as it is. The ranges are those of the UTF-8 decoder: lead bytes
  \<open>C2..DF\<close> take one continuation byte, \<open>E0..EF\<close> two, \<open>F0..F4\<close> three; a
  continuation byte lies in \<open>80..BF\<close>, the first one narrowed after \<open>E0\<close>, \<open>ED\<close>,
  \<open>F0\<close> and \<open>F4\<close>.
\<close>

definition replacement :: string where
  "replacement = [char_of (0xEF :: nat), char_of (0xBF :: nat), char_of (0xBD :: nat)]"

definition in_range :: "nat \<Rightarrow> nat \<Rightarrow> char \<Rightarrow> bool" where
  "in_range lo hi c \<longleftrightarrow> lo \<le> (of_char c :: nat) \<and> (of_char c :: nat) \<le> hi"

definition second_lo :: "nat \<Rightarrow> nat" where
  "second_lo x = (if x = 0xE0 then 0xA0 else if x = 0xF0 then 0x90 else 0x80)"

definition second_hi :: "nat \<Rightarrow> nat" where
  "second_hi x = (if x = 0xED then 0x9F else if x = 0xF4 then 0x8F else 0xBF)"

fun buffer_to_string :: "string \<Rightarrow> string" where
  "buffer_to_string [] = []"
| "buffer_to_string (b # bs) =
     (let x = of_char b :: nat in
      if x < 0x80 then b # buffer_to_string bs
      else if 0xC2 \<le> x \<and> x \<le> 0xDF then
        (case bs of
           [] \<Rightarrow> replacement
         | c # cs \<Rightarrow>
             if in_range 0x80 0xBF c then b # c # buffer_to_string cs
             else replacement @ buffer_to_string bs)
      else if 0xE0 \<le> x \<and> x \<le> 0xEF then
        (case bs of
           [] \<Rightarrow> replacement
         | c # cs \<Rightarrow>
             if in_range (second_lo x) (second_hi x) c then
               (case cs of
                  [] \<Rightarrow> replacement
                | d # ds \<Rightarrow>
                    if in_range 0x80 0xBF d then b # c # d # buffer_to_string ds
                    else replacement @ buffer_to_string cs)
             else replacement @ buffer_to_string bs)
      else if 0xF0 \<le> x \<and> x \<le> 0xF4 then
        (case bs of
           [] \<Rightarrow> replacement
         | c # cs \<Rightarrow>
             if in_range (second_lo x) (second_hi x) c then
               (case cs of
                  [] \<Rightarrow> replacement
                | d # ds \<Rightarrow>
                    if in_range 0x80 0xBF d then
                      (case ds of
                         [] \<Rightarrow> replacement
                       | e # es \<Rightarrow>
                           if in_range 0x80 0xBF e then b # c # d # e # buffer_to_string es
                           else replacement @ buffer_to_string ds)
                    else replacement @ buffer_to_string cs)
             else replacement @ buffer_to_string bs)
      else replacement @ buffer_to_string bs)"

subsection \<open>\<^verbatim>\<open>split\<close> and \<^verbatim>\<open>parseInt\<close>\<close>

text \<open>
  \<^verbatim>\<open>s.split(sep)\<close> for a one-character separator: the pieces between the separators,
  at least one piece (\<^verbatim>\<open>"".split(":")\<close> is \<^verbatim>\<open>[""]\<close>).
\<close>

fun split :: "char \<Rightarrow> string \<Rightarrow> string list" where
  "split sep [] = [[]]"
| "split sep (c # cs) =
     (if c = sep then [] # split sep cs
      else (c # hd (split sep cs)) # tl (split sep cs))"

text \<open>Reading an array element: \<^verbatim>\<open>undefined\<close> beyond the end.\<close>

fun element :: "'a list \<Rightarrow> nat \<Rightarrow> 'a option" where
  "element [] i = None"
| "element (x # xs) 0 = Some x"
| "element (x # xs) (Suc i) = element xs i"

text \<open>
  \<^verbatim>\<open>parseInt(text)\<close> without a radix: leading white space is skipped, then an optional
  sign, then an optional \<^verbatim>\<open>0x\<close>/\<^verbatim>\<open>0X\<close> selecting radix 16, then the longest run of
  digits of the radix; with no digit the result is \<^verbatim>\<open>NaN\<close> (\<open>None\<close>). The value is
  kept as an exact integer.

  \<open>ws_len\<close> is the length in bytes of a white-space character at the head of the text
  (0 when there is none): TAB, LF, VT, FF, CR, space, U+00A0, U+1680, U+2000 to U+200A,
  U+2028, U+2029, U+202F, U+205F, U+3000 and U+FEFF, in UTF-8.
\<close>

definition ws_len :: "string \<Rightarrow> nat" where
  "ws_len s =
     (let bs = map of_char (take 3 s) :: nat list in
      if take 1 bs \<in> {[9], [10], [11], [12], [13], [32]} then 1
      else if take 2 bs = [0xC2, 0xA0] then 2
      else if bs = [0xE1, 0x9A, 0x80] \<or> bs = [0xE2, 0x81, 0x9F] \<or> bs = [0xE3, 0x80, 0x80]
              \<or> bs = [0xEF, 0xBB, 0xBF]
              \<or> bs \<in> (\<lambda>l. [0xE2, 0x80, l]) `
                     (set [0x80 ..< 0x8B] \<union> {0xA8, 0xA9, 0xAF})
      then 3
      else 0)"

function trim_start :: "string \<Rightarrow> string" where
  "trim_start s = (if ws_len s = 0 then s else trim_start (drop (ws_len s) s))"
  by pat_completeness auto
termination
proof (relation "measure length")
  show "wf (measure length)" by simp
next
  fix s :: string
  assume "ws_len s \<noteq> 0"
  moreover have "ws_len [] = 0" by (simp add: ws_len_def)
  ultimately have "s \<noteq> []" by auto
  with \<open>ws_len s \<noteq> 0\<close> show "(drop (ws_len s) s, s) \<in> measure length"
    by (cases s) simp_all
qed

declare trim_start.simps [simp del]

definition digit_value :: "char \<Rightarrow> nat option" where
  "digit_value ch =
     (let c = of_char ch :: nat in
      if 48 \<le> c \<and> c \<le> 57 then Some (c - 48)
      else if 97 \<le> c \<and> c \<le> 122 then Some (c - 87)
      else if 65 \<le> c \<and> c \<le> 90 then Some (c - 55)
      else None)"

definition is_digit :: "nat \<Rightarrow> char \<Rightarrow> bool" where
  "is_digit radix ch = (case digit_value ch of None \<Rightarrow> False | Some d \<Rightarrow> d < radix)"

definition digits_value :: "nat \<Rightarrow> string \<Rightarrow> nat" where
  "digits_value radix ds = foldl (\<lambda>acc ch. acc * radix + the (digit_value ch)) 0 ds"

definition parse_digits :: "nat \<Rightarrow> string \<Rightarrow> nat option" where
  "parse_digits radix s =
     (let z = takeWhile (is_digit radix) s in
      if z = [] then None else Some (digits_value radix z))"

definition parseInt :: "string \<Rightarrow> int option" where
  "parseInt text =
     (let s = trim_start text;
          negative = (take 1 s = ''-'');
          s1 = (if take 1 s = ''-'' \<or> take 1 s = ''+'' then drop 1 s else s);
          hex = (take 2 s1 = ''0x'' \<or> take 2 s1 = ''0X'');
          magnitude = (if hex then parse_digits 16 (drop 2 s1) else parse_digits 10 s1)
      in map_option (\<lambda>m. if negative then - int m else int m) magnitude)"

subsection \<open>Login\<close>

text \<open>
  \<^verbatim>\<open>
  app.post("/admin/login", (req, res) => {
    const { username, password } = req.body;
    if (username === process.env.ADMIN_USERNAME && password === process.env.ADMIN_PASSWORD) {
      const sessionToken = Buffer.from(`${username}:${Date.now()}`).toString("base64");
      res.json({ success: true, token: sessionToken, message: "Login successful" });
    } else {
      res.status(401).json({ success: false, error: "Invalid credentials" });
    }
  });
  \<close>
  The handler has no \<^verbatim>\<open>try\<close>: when \<^verbatim>\<open>req.body\<close> is \<^verbatim>\<open>undefined\<close> or \<^verbatim>\<open>null\<close> the
  destructuring throws and the error leaves the handler (\<open>Inl\<close>, with the message).
  Strict equality with a string of the environment holds only for a string of the same
  characters, so in the first branch \<^verbatim>\<open>username\<close> is that string.
\<close>

definition issue_token :: "string \<Rightarrow> int \<Rightarrow> string" where
  "issue_token username now = base64_encode (username @ '':'' @ number_to_string now)"

definition invalid_credentials :: http_reply where
  "invalid_credentials =
     \<lparr>status = 401,
      content = JObj [(''success'', JBool False), (''error'', JStr ''Invalid credentials'')]\<rparr>"

definition admin_login :: "config \<Rightarrow> int \<Rightarrow> request \<Rightarrow> string + http_reply" where
  "admin_login cfg now req =
     (case body req of
        None \<Rightarrow> Inl ''Cannot destructure property 'username' of 'req.body' as it is undefined.''
      | Some JNull \<Rightarrow> Inl ''Cannot destructure property 'username' of 'req.body' as it is null.''
      | Some b \<Rightarrow>
          (case (property b ''username'', property b ''password'') of
             (Some (JStr username), Some (JStr password)) \<Rightarrow>
               if username = ADMIN_USERNAME cfg \<and> password = ADMIN_PASSWORD cfg
               then Inr \<lparr>status = 200,
                         content = JObj [(''success'', JBool True),
                                         (''token'', JStr (issue_token username now)),
                                         (''message'', JStr ''Login successful'')]\<rparr>
               else Inr invalid_credentials
           | _ \<Rightarrow> Inr invalid_credentials))"

subsection \<open>The session verifier\<close>

text \<open>
  \<^verbatim>\<open>
  const verifyAdminSession = (req, res, next) => {
    const authHeader = req.headers.authorization;
    if (!authHeader || !authHeader.startsWith("Bearer ")) {
      return res.status(401).json({ error: "No valid session token" });
    }
    const token = authHeader.split(" ")[1];
    try {
      const decoded = Buffer.from(token, "base64").toString();
      const [username, timestamp] = decoded.split(":");
      const tokenAge = Date.now() - parseInt(timestamp);
      const maxAge = 24 * 60 * 60 * 1000;
      if (username === process.env.ADMIN_USERNAME && tokenAge < maxAge) { next(); }
      else { res.status(401).json({ error: "Invalid or expired session" }); }
    } catch (error) {
      res.status(401).json({ error: "Invalid session token" });
    }
  };
  \<close>
  The only operation of the \<^verbatim>\<open>try\<close> block that can throw is \<^verbatim>\<open>Buffer.from\<close>, and only
  when \<^verbatim>\<open>token\<close> is not a string (\<^verbatim>\<open>undefined\<close>, when the split has no second piece).
  \<^verbatim>\<open>parseInt(undefined)\<close> reads the text \<^verbatim>\<open>undefined\<close>. A comparison with
  \<^verbatim>\<open>NaN\<close> is false. The subtraction and the comparison are exact on integers; on doubles
  they give the same verdict, since every integer within \<open>2\<^sup>5\<^sup>3\<close> is exact and beyond
  that bound the difference is far from \<^verbatim>\<open>maxAge\<close>.
\<close>

datatype verdict = Next | Rejected http_reply

definition startsWith :: "string \<Rightarrow> string \<Rightarrow> bool" where
  "startsWith s p \<longleftrightarrow> take (length p) s = p"

definition session_error :: "string \<Rightarrow> verdict" where
  "session_error msg = Rejected \<lparr>status = 401, content = JObj [(''error'', JStr msg)]\<rparr>"

definition maxAge :: int where
  "maxAge = 24 * 60 * 60 * 1000"

definition token_age :: "int \<Rightarrow> string option \<Rightarrow> int option" where
  "token_age now timestamp =
     map_option (\<lambda>t. now - t)
       (parseInt (case timestamp of None \<Rightarrow> ''undefined'' | Some text \<Rightarrow> text))"

definition verifyAdminSession :: "config \<Rightarrow> int \<Rightarrow> request \<Rightarrow> verdict" where
  "verifyAdminSession cfg now req =
     (case authorization req of
        None \<Rightarrow> session_error ''No valid session token''
      | Some authHeader \<Rightarrow>
          if authHeader = [] \<or> \<not> startsWith authHeader ''Bearer ''
          then session_error ''No valid session token''
          else
            (case element (split CHR '' '' authHeader) 1 of
               None \<Rightarrow> session_error ''Invalid session token''
             | Some token \<Rightarrow>
                 (let decoded = buffer_to_string (base64_decode token);
                      parts = split CHR '':'' decoded;
                      username = hd parts;
                      timestamp = element parts 1;
                      tokenAge = token_age now timestamp
                  in if username = ADMIN_USERNAME cfg
                        \<and> (case tokenAge of None \<Rightarrow> False | Some age \<Rightarrow> age < maxAge)
                     then Next
                     else session_error ''Invalid or expired session'')))"

section \<open>The account reader: \<^verbatim>\<open>GET /admin/account\<close>\<close>

text \<open>
  Truthiness of a parsed JSON value, the operator \<^verbatim>\<open>a || b\<close>, and the optional
  chaining \<^verbatim>\<open>v?.name\<close> (\<^verbatim>\<open>undefined\<close> when \<open>v\<close> is \<^verbatim>\<open>undefined\<close> or \<^verbatim>\<open>null\<close>).
\<close>

fun truthy :: "json \<Rightarrow> bool" where
  "truthy JNull = False"
| "truthy (JBool b) = b"
| "truthy (JNum r) = (r \<noteq> 0)"
| "truthy (JStr s) = (s \<noteq> [])"
| "truthy (JArr xs) = True"
| "truthy (JObj kvs) = True"

definition or_else :: "json option \<Rightarrow> json \<Rightarrow> json" where
  "or_else a b = (case a of None \<Rightarrow> b | Some v \<Rightarrow> if truthy v then v else b)"

definition opt_chain :: "json option \<Rightarrow> string \<Rightarrow> json option" where
  "opt_chain v k = (case v of None \<Rightarrow> None | Some JNull \<Rightarrow> None | Some x \<Rightarrow> property x k)"

definition key_info_call :: "config \<Rightarrow> upstream_call" where
  "key_info_call cfg =
     \<lparr>url = ''https://openrouter.ai/api/v1/auth/key'',
      http_method = ''GET'',
      auth_header = ''Bearer '' @ OPENROUTER_API_KEY cfg,
      content_type = ''application/json'',
      payload = None\<rparr>"

text \<open>
  The part both readers share: one GET to the key-information endpoint; a rejected fetch,
  a status that is not a success, a body that does not parse, and the body \<^verbatim>\<open>null\<close>
  (reading \<^verbatim>\<open>data.data\<close> of \<^verbatim>\<open>null\<close> throws) all end in the \<^verbatim>\<open>catch\<close> clause
  (\<open>Inl\<close>, with the error message); otherwise the parsed body is handed on.
\<close>

definition fetch_key_info :: "config \<Rightarrow> upstream \<Rightarrow> string + json" where
  "fetch_key_info cfg upstream =
     (case upstream (key_info_call cfg) of
        FetchFailed msg \<Rightarrow> Inl msg
      | Fetched st bd \<Rightarrow>
          if \<not> ok st then Inl (''OpenRouter API error: '' @ number_to_string (int st))
          else
            (case bd of
               Inl msg \<Rightarrow> Inl msg
             | Inr JNull \<Rightarrow> Inl ''Cannot read properties of null (reading 'data')''
             | Inr data \<Rightarrow> Inr data))"

definition failed :: "string \<Rightarrow> http_reply" where
  "failed msg =
     \<lparr>status = 500, content = JObj [(''success'', JBool False), (''error'', JStr msg)]\<rparr>"

text \<open>
  \<^verbatim>\<open>
  res.json({ success: true, account: {
      label: data.data?.label || "Unknown",
      usage: data.data?.usage || 0,
      limit: data.data?.limit || 0,
      is_free_tier: data.data?.is_free_tier || false,
      rate_limit: data.data?.rate_limit || {} } });
  \<close>
\<close>

definition account_summary :: "json \<Rightarrow> json" where
  "account_summary data =
     JObj [(''label'', or_else (opt_chain (property data ''data'') ''label'') (JStr ''Unknown'')),
           (''usage'', or_else (opt_chain (property data ''data'') ''usage'') (JNum 0)),
           (''limit'', or_else (opt_chain (property data ''data'') ''limit'') (JNum 0)),
           (''is_free_tier'',
              or_else (opt_chain (property data ''data'') ''is_free_tier'') (JBool False)),
           (''rate_limit'',
              or_else (opt_chain (property data ''data'') ''rate_limit'') (JObj []))]"

definition admin_account :: "config \<Rightarrow> upstream \<Rightarrow> outcome" where
  "admin_account cfg upstream =
     (case fetch_key_info cfg upstream of
        Inl msg \<Rightarrow>
          \<lparr>reply = failed ''Failed to fetch account info'',
           calls = [key_info_call cfg], logged = [AdminAccountError msg]\<rparr>
      | Inr data \<Rightarrow>
          \<lparr>reply = \<lparr>status = 200,
                     content = JObj [(''success'', JBool True),
                                     (''account'', account_summary data)]\<rparr>,
           calls = [key_info_call cfg], logged = []\<rparr>)"

text \<open>A route guarded by the verifier: the handler runs only after \<^verbatim>\<open>next()\<close>.\<close>

definition guarded :: "config \<Rightarrow> int \<Rightarrow> request \<Rightarrow> outcome \<Rightarrow> outcome" where
  "guarded cfg now req handler =
     (case verifyAdminSession cfg now req of
        Rejected r \<Rightarrow> \<lparr>reply = r, calls = [], logged = []\<rparr>
      | Next \<Rightarrow> handler)"

definition get_admin_account :: "config \<Rightarrow> int \<Rightarrow> upstream \<Rightarrow> request \<Rightarrow> outcome" where
  "get_admin_account cfg now upstream req = guarded cfg now req (admin_account cfg upstream)"

text \<open>Fixtures for the admin routes.\<close>

definition bearer :: "string \<Rightarrow> request" where
  "bearer token =
     \<lparr>x_api_key = None, authorization = Some (''Bearer '' @ token), body = None\<rparr>"

definition login_request :: "json \<Rightarrow> json \<Rightarrow> request" where
  "login_request u p =
     \<lparr>x_api_key = None, authorization = None,
      body = Some (JObj [(''username'', u), (''password'', p)])\<rparr>"

definition key_info :: "json \<Rightarrow> upstream" where
  "key_info d = always (Fetched 200 (Inr (JObj [(''data'', d)])))"

definition unlimited_key :: json where
  "unlimited_key =
     JObj [(''label'', JStr []), (''usage'', JNum (3 / 2)), (''limit'', JNull),
           (''is_free_tier'', JBool False), (''rate_limit'', JObj [(''requests'', JNum 20)])]"

section \<open>The specification's side\<close>

text \<open>
  The defaults that the specification lists for the account summary, field by field.
\<close>

definition account_defaults :: "(string \<times> json) list" where
  "account_defaults =
     [(''label'', JStr ''Unknown''), (''usage'', JNum 0), (''limit'', JNum 0),
      (''is_free_tier'', JBool False), (''rate_limit'', JObj [])]"

section \<open>Properties of the chat relay\<close>

text \<open>
  C2. A request to \<^verbatim>\<open>/api/chat\<close> whose \<^verbatim>\<open>x-api-key\<close> header is absent, or differs
  from the configured shared secret, is answered with HTTP 401 and the body
  \<^verbatim>\<open>{error:"Unauthorized"}\<close>, and no upstream call is made.
\<close>

theorem chat_wrong_key_unauthorized:
  assumes "x_api_key req = None \<or> x_api_key req \<noteq> Some (FRONTEND_API_KEY cfg)"
  shows "reply (chat_handler cfg now upstream req)
           = \<lparr>status = 401, content = JObj [(''error'', JStr ''Unauthorized'')]\<rparr>
         \<and> calls (chat_handler cfg now upstream req) = []"
  using assms by (auto simp: chat_handler_def unauthorized_def split: option.splits)

theorem chat_wrong_key_unauthorized_witness:
  "x_api_key (chat_request (Some ''guess'') (JObj [])) \<noteq> Some (FRONTEND_API_KEY demo_config)
   \<and> reply (chat_handler demo_config 0 (always (Fetched 200 (Inr demo_completion)))
              (chat_request (Some ''guess'') (JObj [])))
       = \<lparr>status = 401, content = JObj [(''error'', JStr ''Unauthorized'')]\<rparr>
   \<and> calls (chat_handler demo_config 0 (always (Fetched 200 (Inr demo_completion)))
              (chat_request (Some ''guess'') (JObj []))) = []"
proof -
  have h: "x_api_key (chat_request (Some ''guess'') (JObj [])) = None
           \<or> x_api_key (chat_request (Some ''guess'') (JObj []))
               \<noteq> Some (FRONTEND_API_KEY demo_config)"
    by (simp add: chat_request_def demo_config_def)
  from chat_wrong_key_unauthorized [OF h] h show ?thesis
    by (simp add: chat_request_def)
qed

text \<open>
  The guard of the handler is \<^verbatim>\<open>!authHeader || authHeader !== FRONTEND_API_KEY\<close>: an
  empty header value is falsy and is turned away before it is compared. The handler goes
  on to the upstream call exactly when the header is present, non-empty and equal to the
  secret.
\<close>

lemma chat_handler_authorized:
  assumes "x_api_key req = Some k" "k \<noteq> []" "k = FRONTEND_API_KEY cfg"
    and "body req = Some b" "b \<noteq> JNull"
  shows "chat_handler cfg now upstream req =
     (case upstream (chat_call cfg b) of
        FetchFailed msg \<Rightarrow> chat_caught now msg [chat_call cfg b]
      | Fetched st bd \<Rightarrow>
          if \<not> ok st
          then chat_caught now (''OpenRouter API error: '' @ number_to_string (int st))
                 [chat_call cfg b]
          else (case bd of
                  Inl msg \<Rightarrow> chat_caught now msg [chat_call cfg b]
                | Inr data \<Rightarrow> \<lparr>reply = \<lparr>status = 200, content = data\<rparr>,
                               calls = [chat_call cfg b], logged = []\<rparr>))"
  using assms
  by (cases b) (auto simp: chat_handler_def Let_def split: upstream_reply.splits sum.splits)

lemma chat_handler_one_call:
  assumes "x_api_key req = Some k" "k \<noteq> []" "k = FRONTEND_API_KEY cfg"
    and "body req = Some b" "b \<noteq> JNull"
  shows "calls (chat_handler cfg now upstream req) = [chat_call cfg b]"
  by (simp add: chat_handler_authorized [OF assms] chat_caught_def
           split: upstream_reply.splits sum.splits)

text \<open>
  C1, as stated, fails in three places. A request with the correct header whose body the
  JSON middleware did not parse (\<^verbatim>\<open>req.body\<close> is \<^verbatim>\<open>undefined\<close>) makes the
  destructuring throw: it is answered 500 and no upstream call is made. An upstream reply
  with a success status whose body is not JSON makes \<^verbatim>\<open>response.json()\<close> reject: it is
  answered 500, not 200. And an empty header is turned away by \<^verbatim>\<open>!authHeader\<close> even
  when the configured secret is the empty string.
\<close>

theorem chat_unparsed_body_counterexample:
  "x_api_key (bodiless_request (Some ''frontend-secret''))
     = Some (FRONTEND_API_KEY demo_config)
   \<and> calls (chat_handler demo_config 0 (always (Fetched 200 (Inr demo_completion)))
              (bodiless_request (Some ''frontend-secret''))) = []
   \<and> reply (chat_handler demo_config 0 (always (Fetched 200 (Inr demo_completion)))
              (bodiless_request (Some ''frontend-secret'')))
       = \<lparr>status = 500, content = JObj [(''error'', JStr ''Internal server error'')]\<rparr>
   \<and> ok 200
   \<and> reply (chat_handler demo_config 0
              (always (Fetched 200 (Inl ''Unexpected token < in JSON at position 0'')))
              (chat_request (Some ''frontend-secret'') (JObj [(''messages'', demo_messages)])))
       = \<lparr>status = 500, content = JObj [(''error'', JStr ''Internal server error'')]\<rparr>
   \<and> x_api_key (chat_request (Some []) (JObj []))
       = Some (FRONTEND_API_KEY (demo_config\<lparr>FRONTEND_API_KEY := []\<rparr>))
   \<and> calls (chat_handler (demo_config\<lparr>FRONTEND_API_KEY := []\<rparr>) 0
              (always (Fetched 200 (Inr demo_completion))) (chat_request (Some []) (JObj [])))
       = []"
  by (simp add: chat_handler_def chat_request_def bodiless_request_def demo_config_def
        chat_caught_def internal_server_error_def always_def ok_def Let_def)

lemma chat_handler_no_body:
  assumes "x_api_key req = Some k" "k \<noteq> []" "k = FRONTEND_API_KEY cfg"
    and "body req = None \<or> body req = Some JNull"
  shows "calls (chat_handler cfg now upstream req) = []"
    and "reply (chat_handler cfg now upstream req) = internal_server_error"
  using assms by (auto simp: chat_handler_def chat_caught_def)

text \<open>
  C1 (amended). For every request to \<^verbatim>\<open>/api/chat\<close> whose \<^verbatim>\<open>x-api-key\<close> header is
  non-empty and equal to the configured secret: when \<^verbatim>\<open>req.body\<close> is \<^verbatim>\<open>undefined\<close>
  or \<^verbatim>\<open>null\<close>, no upstream call is made and the reply is HTTP 500 with the generic
  body; otherwise the handler makes exactly one upstream call, and the reply is HTTP 200
  with the upstream JSON value unchanged when the upstream status is a success and its
  body parses as JSON, and HTTP 500 with exactly the body
  \<^verbatim>\<open>{error:"Internal server error"}\<close> when the upstream status is not a success
  (whatever the upstream status and body were), when the body of a successful reply does
  not parse, and when the fetch itself fails.
\<close>

theorem chat_relays_upstream:
  assumes "x_api_key req = Some k" "k \<noteq> []" "k = FRONTEND_API_KEY cfg"
  shows "(body req = None \<or> body req = Some JNull \<longrightarrow>
           calls (chat_handler cfg now upstream req) = []
           \<and> reply (chat_handler cfg now upstream req)
               = \<lparr>status = 500, content = JObj [(''error'', JStr ''Internal server error'')]\<rparr>)
    \<and> (\<forall>b. body req = Some b \<and> b \<noteq> JNull \<longrightarrow>
          calls (chat_handler cfg now upstream req) = [chat_call cfg b]
          \<and> (\<forall>st data. upstream (chat_call cfg b) = Fetched st (Inr data) \<and> ok st
                \<longrightarrow> reply (chat_handler cfg now upstream req)
                    = \<lparr>status = 200, content = data\<rparr>)
          \<and> (\<forall>st msg. upstream (chat_call cfg b) = Fetched st (Inl msg) \<and> ok st
                \<longrightarrow> reply (chat_handler cfg now upstream req)
                    = \<lparr>status = 500,
                       content = JObj [(''error'', JStr ''Internal server error'')]\<rparr>)
          \<and> (\<forall>st bd. upstream (chat_call cfg b) = Fetched st bd \<and> \<not> ok st
                \<longrightarrow> reply (chat_handler cfg now upstream req)
                    = \<lparr>status = 500,
                       content = JObj [(''error'', JStr ''Internal server error'')]\<rparr>)
          \<and> (\<forall>msg. upstream (chat_call cfg b) = FetchFailed msg
                \<longrightarrow> reply (chat_handler cfg now upstream req)
                    = \<lparr>status = 500,
                       content = JObj [(''error'', JStr ''Internal server error'')]\<rparr>))"
proof (intro conjI allI impI)
  assume "body req = None \<or> body req = Some JNull"
  from chat_handler_no_body [OF assms this]
  show "calls (chat_handler cfg now upstream req) = []"
    and "reply (chat_handler cfg now upstream req)
      = \<lparr>status = 500, content = JObj [(''error'', JStr ''Internal server error'')]\<rparr>"
    by (simp_all add: internal_server_error_def)
next
  fix b
  assume b: "body req = Some b \<and> b \<noteq> JNull"
  then have h: "body req = Some b" "b \<noteq> JNull" by simp_all
  note run = chat_handler_authorized [OF assms h]
  show "calls (chat_handler cfg now upstream req) = [chat_call cfg b]"
    by (rule chat_handler_one_call [OF assms h])
  {
    fix st data
    assume "upstream (chat_call cfg b) = Fetched st (Inr data) \<and> ok st"
    then show "reply (chat_handler cfg now upstream req) = \<lparr>status = 200, content = data\<rparr>"
      by (simp add: run)
  }
  {
    fix st msg
    assume "upstream (chat_call cfg b) = Fetched st (Inl msg) \<and> ok st"
    then show "reply (chat_handler cfg now upstream req)
        = \<lparr>status = 500, content = JObj [(''error'', JStr ''Internal server error'')]\<rparr>"
      by (simp add: run chat_caught_def internal_server_error_def)
  }
  {
    fix st bd
    assume "upstream (chat_call cfg b) = Fetched st bd \<and> \<not> ok st"
    then show "reply (chat_handler cfg now upstream req)
        = \<lparr>status = 500, content = JObj [(''error'', JStr ''Internal server error'')]\<rparr>"
      by (simp add: run chat_caught_def internal_server_error_def)
  }
  {
    fix msg
    assume "upstream (chat_call cfg b) = FetchFailed msg"
    then show "reply (chat_handler cfg now upstream req)
        = \<lparr>status = 500, content = JObj [(''error'', JStr ''Internal server error'')]\<rparr>"
      by (simp add: run chat_caught_def internal_server_error_def)
  }
qed

theorem chat_relays_upstream_witness:
  "calls (chat_handler demo_config 0 (always (Fetched 200 (Inr demo_completion)))
            (chat_request (Some ''frontend-secret'') (JObj [(''messages'', demo_messages)])))
     = [chat_call demo_config (JObj [(''messages'', demo_messages)])]
   \<and> reply (chat_handler demo_config 0 (always (Fetched 200 (Inr demo_completion)))
            (chat_request (Some ''frontend-secret'') (JObj [(''messages'', demo_messages)])))
     = \<lparr>status = 200, content = demo_completion\<rparr>
   \<and> reply (chat_handler demo_config 0
              (always (Fetched 429 (Inr (JObj [(''error'', JStr ''rate limited'')]))))
            (chat_request (Some ''frontend-secret'') (JObj [(''messages'', demo_messages)])))
     = \<lparr>status = 500, content = JObj [(''error'', JStr ''Internal server error'')]\<rparr>
   \<and> calls (chat_handler demo_config 0 (always (Fetched 200 (Inr demo_completion)))
            (bodiless_request (Some ''frontend-secret''))) = []"
proof -
  let ?b = "JObj [(''messages'', demo_messages)]"
  let ?req = "chat_request (Some ''frontend-secret'') ?b"
  let ?bare = "bodiless_request (Some ''frontend-secret'')"
  let ?good = "always (Fetched 200 (Inr demo_completion))"
  let ?bad = "always (Fetched 429 (Inr (JObj [(''error'', JStr ''rate limited'')])))"
  have k: "x_api_key ?req = Some ''frontend-secret''" "''frontend-secret'' \<noteq> []"
    "''frontend-secret'' = FRONTEND_API_KEY demo_config"
    by (simp_all add: chat_request_def demo_config_def)
  have k': "x_api_key ?bare = Some ''frontend-secret''" "''frontend-secret'' \<noteq> []"
    "''frontend-secret'' = FRONTEND_API_KEY demo_config"
    by (simp_all add: bodiless_request_def demo_config_def)
  have b: "body ?req = Some ?b \<and> ?b \<noteq> JNull"
    by (simp add: chat_request_def)
  have n: "body ?bare = None \<or> body ?bare = Some JNull"
    by (simp add: bodiless_request_def)
  have good: "?good (chat_call demo_config ?b) = Fetched 200 (Inr demo_completion) \<and> ok 200"
    by (simp add: always_def ok_def)
  have bad: "?bad (chat_call demo_config ?b)
             = Fetched 429 (Inr (JObj [(''error'', JStr ''rate limited'')])) \<and> \<not> ok 429"
    by (simp add: always_def ok_def)
  from chat_relays_upstream [OF k, of 0 ?good] b good
  have "calls (chat_handler demo_config 0 ?good ?req) = [chat_call demo_config ?b]
        \<and> reply (chat_handler demo_config 0 ?good ?req)
          = \<lparr>status = 200, content = demo_completion\<rparr>"
    by blast
  moreover
  from chat_relays_upstream [OF k, of 0 ?bad] b bad
  have "reply (chat_handler demo_config 0 ?bad ?req)
          = \<lparr>status = 500, content = JObj [(''error'', JStr ''Internal server error'')]\<rparr>"
    by blast
  moreover
  from chat_relays_upstream [OF k', of 0 ?good] n
  have "calls (chat_handler demo_config 0 ?good ?bare) = []"
    by blast
  ultimately show ?thesis by simp
qed

text \<open>
  C3. For every authorized request to \<^verbatim>\<open>/api/chat\<close> (header present, non-empty and
  equal to the secret; parsed body an object or an array), the one body forwarded upstream
  is the object \<^verbatim>\<open>{model, messages, temperature, top_p}\<close>: \<^verbatim>\<open>model\<close> is the
  configured model, \<^verbatim>\<open>messages\<close> is the request's \<^verbatim>\<open>messages\<close> unchanged (the key is
  left out when the request has none), \<^verbatim>\<open>temperature\<close> is \<open>0.8\<close> when the request
  omits it and the supplied value otherwise, and \<^verbatim>\<open>top_p\<close> is \<open>1\<close> when omitted and
  the supplied value otherwise.
\<close>

theorem chat_forwarded_body:
  assumes "x_api_key req = Some k" "k \<noteq> []" "k = FRONTEND_API_KEY cfg"
    and "body req = Some b" "b \<noteq> JNull"
  shows "map payload (calls (chat_handler cfg now upstream req))
    = [Some (JObj ([(''model'', JStr (MODEL cfg))]
         @ (case property b ''messages'' of None \<Rightarrow> [] | Some m \<Rightarrow> [(''messages'', m)])
         @ [(''temperature'',
               case property b ''temperature'' of None \<Rightarrow> JNum (8 / 10) | Some t \<Rightarrow> t),
            (''top_p'', case property b ''top_p'' of None \<Rightarrow> JNum 1 | Some p \<Rightarrow> p)]))]"
  by (simp add: chat_handler_one_call [OF assms] chat_call_def chat_payload_def
        with_default_def split: option.splits)

theorem chat_forwarded_body_witness:
  "map payload (calls (chat_handler demo_config 0 (always (FetchFailed ''timeout''))
      (chat_request (Some ''frontend-secret'')
         (JObj [(''messages'', demo_messages), (''temperature'', JNum (2 / 10))]))))
   = [Some (JObj [(''model'', JStr ''some/model''), (''messages'', demo_messages),
                  (''temperature'', JNum (2 / 10)), (''top_p'', JNum 1)])]"
proof -
  let ?b = "JObj [(''messages'', demo_messages), (''temperature'', JNum (2 / 10))]"
  let ?req = "chat_request (Some ''frontend-secret'') ?b"
  have k: "x_api_key ?req = Some ''frontend-secret''" "''frontend-secret'' \<noteq> []"
    "''frontend-secret'' = FRONTEND_API_KEY demo_config"
    "body ?req = Some ?b" "?b \<noteq> JNull"
    by (simp_all add: chat_request_def demo_config_def)
  from chat_forwarded_body [OF k, of 0 "always (FetchFailed ''timeout'')"]
  show ?thesis by (simp add: demo_config_def)
qed

section \<open>Digits\<close>

lemma nat_to_string_small: "n < 10 \<Longrightarrow> nat_to_string n = [digit_char n]"
  by (simp add: nat_to_string.simps)

lemma nat_to_string_big:
  "10 \<le> n \<Longrightarrow> nat_to_string n = nat_to_string (n div 10) @ [digit_char (n mod 10)]"
  by (subst nat_to_string.simps) simp

lemma nat_to_string_nonempty: "nat_to_string n \<noteq> []"
  by (subst nat_to_string.simps) simp

lemma digit_chars:
  "digit_char 0 = CHR ''0''" "digit_char (Suc 0) = CHR ''1''" "digit_char 2 = CHR ''2''"
  "digit_char 3 = CHR ''3''" "digit_char 4 = CHR ''4''" "digit_char 5 = CHR ''5''"
  "digit_char 6 = CHR ''6''" "digit_char 7 = CHR ''7''" "digit_char 8 = CHR ''8''"
  "digit_char 9 = CHR ''9''"
  by code_simp+

lemma digit_char_0: "digit_char 0 = CHR ''0''"
  by (rule digit_chars)

section \<open>Properties of the account reader\<close>

lemma fetch_key_info_success:
  assumes "upstream (key_info_call cfg) = Fetched st (Inr data)" "ok st" "data \<noteq> JNull"
  shows "fetch_key_info cfg upstream = Inr data"
  using assms by (cases data) (simp_all add: fetch_key_info_def)

text \<open>
  C8, as stated, fails for a field that is present with a falsy value: the payload
  \<open>unlimited_key\<close> carries \<^verbatim>\<open>limit: null\<close> (a key without limit) and \<^verbatim>\<open>label: ""\<close>;
  the reply has \<^verbatim>\<open>limit: 0\<close> and \<^verbatim>\<open>label: "Unknown"\<close>, neither taken from the payload.
\<close>

theorem account_falsy_field_counterexample:
  "property unlimited_key ''limit'' = Some JNull
   \<and> property unlimited_key ''label'' = Some (JStr [])
   \<and> reply (admin_account demo_config (key_info unlimited_key))
       = \<lparr>status = 200,
          content = JObj [(''success'', JBool True),
            (''account'', JObj [(''label'', JStr ''Unknown''),
                                (''usage'', JNum (3 / 2)),
                                (''limit'', JNum 0),
                                (''is_free_tier'', JBool False),
                                (''rate_limit'', JObj [(''requests'', JNum 20)])])]\<rparr>"
  by (simp add: unlimited_key_def admin_account_def fetch_key_info_def key_info_def
        always_def ok_def account_summary_def or_else_def opt_chain_def)

lemma account_summary_field:
  assumes "(f, d) \<in> set account_defaults"
  shows "property (account_summary data) f
     = Some (case opt_chain (property data ''data'') f of
               None \<Rightarrow> d
             | Some v \<Rightarrow> if truthy v then v else d)"
  using assms
  by (auto simp: account_defaults_def account_summary_def or_else_def split: option.splits)

lemma account_summary_fields:
  "property (account_summary data) k \<noteq> None \<Longrightarrow> k \<in> fst ` set account_defaults"
  by (auto simp: account_defaults_def account_summary_def split: if_splits)

text \<open>
  C8 (amended). On upstream success (status 200 to 299, body parsed, body not the literal
  \<^verbatim>\<open>null\<close>), \<^verbatim>\<open>/admin/account\<close> answers 200 with \<^verbatim>\<open>{success:true, account}\<close> where
  \<^verbatim>\<open>account\<close> has exactly the fields \<^verbatim>\<open>label\<close>, \<^verbatim>\<open>usage\<close>, \<^verbatim>\<open>limit\<close>,
  \<^verbatim>\<open>is_free_tier\<close>, \<^verbatim>\<open>rate_limit\<close>; each field is the payload's value when that value
  is present and truthy, and its default (\<^verbatim>\<open>"Unknown"\<close>, \<^verbatim>\<open>0\<close>, \<^verbatim>\<open>0\<close>, \<^verbatim>\<open>false\<close>,
  \<^verbatim>\<open>{}\<close>) when the field is absent or its value is \<^verbatim>\<open>null\<close>, \<^verbatim>\<open>false\<close>, \<^verbatim>\<open>0\<close> or
  the empty string.
\<close>

theorem account_reader_defaults:
  assumes "upstream (key_info_call cfg) = Fetched st (Inr data)" and "ok st"
    and "data \<noteq> JNull"
  shows "reply (admin_account cfg upstream)
      = \<lparr>status = 200,
         content = JObj [(''success'', JBool True), (''account'', account_summary data)]\<rparr>
    \<and> (\<forall>(f, d) \<in> set account_defaults.
          property (account_summary data) f
            = Some (case opt_chain (property data ''data'') f of
                      None \<Rightarrow> d
                    | Some v \<Rightarrow> if truthy v then v else d))
    \<and> (\<forall>k. property (account_summary data) k \<noteq> None \<longrightarrow> k \<in> fst ` set account_defaults)"
proof (intro conjI)
  show "reply (admin_account cfg upstream)
      = \<lparr>status = 200,
         content = JObj [(''success'', JBool True), (''account'', account_summary data)]\<rparr>"
    using fetch_key_info_success [where upstream = upstream and cfg = cfg, OF assms]
    by (simp add: admin_account_def)
next
  show "\<forall>(f, d) \<in> set account_defaults.
          property (account_summary data) f
            = Some (case opt_chain (property data ''data'') f of
                      None \<Rightarrow> d
                    | Some v \<Rightarrow> if truthy v then v else d)"
    using account_summary_field by blast
next
  show "\<forall>k. property (account_summary data) k \<noteq> None \<longrightarrow> k \<in> fst ` set account_defaults"
    using account_summary_fields by blast
qed

theorem account_reader_defaults_witness:
  "reply (admin_account demo_config
            (key_info (JObj [(''label'', JStr ''sk-or-v1-abc''), (''usage'', JNum 0),
                             (''is_free_tier'', JBool True)])))
     = \<lparr>status = 200,
        content = JObj [(''success'', JBool True),
          (''account'', JObj [(''label'', JStr ''sk-or-v1-abc''),
                              (''usage'', JNum 0),
                              (''limit'', JNum 0),
                              (''is_free_tier'', JBool True),
                              (''rate_limit'', JObj [])])]\<rparr>
   \<and> property (account_summary (JObj [(''data'',
          JObj [(''label'', JStr ''sk-or-v1-abc''), (''usage'', JNum 0),
                (''is_free_tier'', JBool True)])])) ''limit'' = Some (JNum 0)
   \<and> property (account_summary (JObj [(''data'',
          JObj [(''label'', JStr ''sk-or-v1-abc''), (''usage'', JNum 0),
                (''is_free_tier'', JBool True)])])) ''label'' = Some (JStr ''sk-or-v1-abc'')"
proof -
  let ?d = "JObj [(''label'', JStr ''sk-or-v1-abc''), (''usage'', JNum 0),
                  (''is_free_tier'', JBool True)]"
  have h: "key_info ?d (key_info_call demo_config) = Fetched 200 (Inr (JObj [(''data'', ?d)]))"
    "ok 200" "JObj [(''data'', ?d)] \<noteq> JNull"
    by (simp_all add: key_info_def always_def ok_def)
  have m: "(''limit'', JNum 0) \<in> set account_defaults"
    "(''label'', JStr ''Unknown'') \<in> set account_defaults"
    by (simp_all add: account_defaults_def)
  note t = account_reader_defaults [where upstream = "key_info ?d" and cfg = demo_config, OF h]
  from t have "reply (admin_account demo_config (key_info ?d))
      = \<lparr>status = 200, content = JObj [(''success'', JBool True),
           (''account'', account_summary (JObj [(''data'', ?d)]))]\<rparr>"
    by (rule conjunct1)
  moreover from t m have
    "property (account_summary (JObj [(''data'', ?d)])) ''limit''
       = Some (case opt_chain (property (JObj [(''data'', ?d)]) ''data'') ''limit'' of
                 None \<Rightarrow> JNum 0 | Some v \<Rightarrow> if truthy v then v else JNum 0)"
    "property (account_summary (JObj [(''data'', ?d)])) ''label''
       = Some (case opt_chain (property (JObj [(''data'', ?d)]) ''data'') ''label'' of
                 None \<Rightarrow> JStr ''Unknown'' | Some v \<Rightarrow> if truthy v then v else JStr ''Unknown'')"
    by blast+
  ultimately show ?thesis
    by (simp add: opt_chain_def account_summary_def or_else_def)
qed

section \<open>Base64 round trip\<close>

text \<open>
  Decoding what \<^verbatim>\<open>Buffer\<close> encoded gives the bytes back: the characters of the alphabet
  are read as their indices, the padding stops the reading, and the six-bit values pack
  into the bytes they came from.
\<close>

lemmas char_code = char_of_eq_iff take_bit_eq_mod

lemma unbase64_b64_char: "n < 64 \<Longrightarrow> unbase64 (b64_char n) = Some n"
  by (auto simp: unbase64_def b64_char_def Let_def char_code)

lemma b64_char_not_pad: "n < 64 \<Longrightarrow> b64_char n \<noteq> CHR ''=''"
  by (auto simp: b64_char_def char_code split: if_splits)

lemma b64_char_not_space: "n < 64 \<Longrightarrow> b64_char n \<noteq> CHR '' ''"
  by (auto simp: b64_char_def char_code split: if_splits)

lemma sextets_Cons: "n < 64 \<Longrightarrow> sextets (b64_char n # s) = n # sextets s"
  by (simp add: sextets_def b64_char_not_pad unbase64_b64_char List.map_filter_simps)

lemma sextets_pad: "sextets (CHR ''='' # s) = []"
  by (simp add: sextets_def List.map_filter_simps)

lemma sextets_Nil: "sextets [] = []"
  by (simp add: sextets_def List.map_filter_simps)

lemma div_pack: "b < k \<Longrightarrow> (a * k + b) div k = (a::nat)"
  by simp

lemma mod_pack: "b < k \<Longrightarrow> (a * k + b) mod k = (b::nat)"
  by simp

lemma sextet_bounds:
  fixes x y z :: nat
  assumes "x < 256" "y < 256" "z < 256"
  shows "x div 4 < 64" "(x mod 4) * 16 + y div 16 < 64" "(y mod 16) * 4 + z div 64 < 64"
    "z mod 64 < 64" "(x mod 4) * 16 < 64" "(y mod 16) * 4 < 64"
proof -
  from assms have "y div 16 < 16" "z div 64 < 4" by simp_all
  moreover have "x mod 4 < 4" "y mod 16 < 16" by simp_all
  ultimately show "(x mod 4) * 16 + y div 16 < 64" "(y mod 16) * 4 + z div 64 < 64"
    "(x mod 4) * 16 < 64" "(y mod 16) * 4 < 64"
    by linarith+
  from assms show "x div 4 < 64" by simp
  show "z mod 64 < 64" by simp
qed

lemma byte1: "y < 256 \<Longrightarrow> (x div 4) * 4 + ((x mod 4) * 16 + y div 16) div 16 = (x::nat)"
proof -
  assume "y < 256"
  then have "y div 16 < 16" by simp
  then show ?thesis by (simp add: div_pack)
qed

lemma byte2:
  "y < 256 \<Longrightarrow> z < 256 \<Longrightarrow>
   (((x mod 4) * 16 + y div 16) mod 16) * 16 + ((y mod 16) * 4 + z div 64) div 4 = (y::nat)"
proof -
  assume "y < 256" "z < 256"
  then have "y div 16 < 16" "z div 64 < 4" by simp_all
  then show ?thesis by (simp add: div_pack mod_pack)
qed

lemma byte3: "z < 256 \<Longrightarrow> (((y mod 16) * 4 + z div 64) mod 4) * 64 + z mod 64 = (z::nat)"
proof -
  assume "z < 256"
  then have "z div 64 < 4" by simp
  then show ?thesis by (simp add: mod_pack)
qed

lemma byte2_last:
  "y < 256 \<Longrightarrow> (((x mod 4) * 16 + y div 16) mod 16) * 16 + ((y mod 16) * 4) div 4 = (y::nat)"
proof -
  assume "y < 256"
  then have "y div 16 < 16" by simp
  then show ?thesis by (simp add: mod_pack)
qed

lemma byte1_last: "(x div 4) * 4 + ((x mod 4) * 16) div 16 = (x::nat)"
  by simp

lemma bytes_of_packed:
  fixes x y z :: nat
  assumes "y < 256" "z < 256"
  shows "bytes_of_sextets
           (x div 4 # ((x mod 4) * 16 + y div 16) # ((y mod 16) * 4 + z div 64)
              # z mod 64 # rest)
         = char_of x # char_of y # char_of z # bytes_of_sextets rest"
  by (simp only: bytes_of_sextets.simps byte1 [OF assms(1)] byte2 [OF assms] byte3 [OF assms(2)]
        append_Cons append_Nil)

lemma bytes_of_packed2:
  fixes x y :: nat
  assumes "y < 256"
  shows "bytes_of_sextets [x div 4, (x mod 4) * 16 + y div 16, (y mod 16) * 4]
         = [char_of x, char_of y]"
  by (simp only: bytes_of_sextets.simps byte1 [OF assms] byte2_last [OF assms])

lemma bytes_of_packed1:
  fixes x :: nat
  shows "bytes_of_sextets [x div 4, (x mod 4) * 16] = [char_of x]"
  by (simp only: bytes_of_sextets.simps byte1_last)

lemma base64_roundtrip: "base64_decode (base64_encode bs) = bs"
proof (induction bs rule: base64_encode.induct)
  case (1 a b c rest)
  let ?x = "of_char a :: nat" and ?y = "of_char b :: nat" and ?z = "of_char c :: nat"
  have lt: "?x < 256" "?y < 256" "?z < 256" by simp_all
  note bd = sextet_bounds [OF lt]
  have "sextets (base64_encode (a # b # c # rest))
      = ?x div 4 # ((?x mod 4) * 16 + ?y div 16) # ((?y mod 16) * 4 + ?z div 64)
          # ?z mod 64 # sextets (base64_encode rest)"
    by (simp add: Let_def sextets_Cons bd)
  then have "base64_decode (base64_encode (a # b # c # rest))
      = char_of ?x # char_of ?y # char_of ?z # base64_decode (base64_encode rest)"
    by (simp only: base64_decode_def bytes_of_packed [OF lt(2,3)])
  with 1 show ?case by simp
next
  case (2 a b)
  let ?x = "of_char a :: nat" and ?y = "of_char b :: nat"
  have lt: "?x < 256" "?y < 256" by simp_all
  note bd = sextet_bounds [OF lt lt(2)]
  have "sextets (base64_encode [a, b])
      = [?x div 4, (?x mod 4) * 16 + ?y div 16, (?y mod 16) * 4]"
    by (simp add: Let_def sextets_Cons sextets_pad bd)
  then have "base64_decode (base64_encode [a, b]) = [char_of ?x, char_of ?y]"
    by (simp only: base64_decode_def bytes_of_packed2 [OF lt(2)])
  then show ?case by simp
next
  case (3 a)
  let ?x = "of_char a :: nat"
  have lt: "?x < 256" by simp
  note bd = sextet_bounds [OF lt lt lt]
  have "sextets (base64_encode [a]) = [?x div 4, (?x mod 4) * 16]"
    by (simp add: Let_def sextets_Cons sextets_pad bd)
  then have "base64_decode (base64_encode [a]) = [char_of ?x]"
    by (simp only: base64_decode_def bytes_of_packed1)
  then show ?case by simp
next
  case 4
  show ?case by (simp add: base64_decode_def sextets_Nil)
qed

lemma base64_encode_no_space: "CHR '' '' \<notin> set (base64_encode bs)"
proof (induction bs rule: base64_encode.induct)
  case (1 a b c rest)
  let ?x = "of_char a :: nat" and ?y = "of_char b :: nat" and ?z = "of_char c :: nat"
  have lt: "?x < 256" "?y < 256" "?z < 256" by simp_all
  note bd = sextet_bounds [OF lt]
  from 1 show ?case by (simp add: Let_def b64_char_not_space [THEN not_sym] bd)
next
  case (2 a b)
  let ?x = "of_char a :: nat" and ?y = "of_char b :: nat"
  have lt: "?x < 256" "?y < 256" by simp_all
  note bd = sextet_bounds [OF lt lt(2)]
  show ?case by (simp add: Let_def b64_char_not_space [THEN not_sym] bd)
next
  case (3 a)
  let ?x = "of_char a :: nat"
  have lt: "?x < 256" by simp
  note bd = sextet_bounds [OF lt lt lt]
  show ?case by (simp add: Let_def b64_char_not_space [THEN not_sym] bd)
next
  case 4
  show ?case by simp
qed

section \<open>\<^verbatim>\<open>split\<close>, digits and \<^verbatim>\<open>parseInt\<close>\<close>

lemma split_nonempty: "split sep s \<noteq> []"
  by (induction s) simp_all

lemma split_no_sep: "sep \<notin> set s \<Longrightarrow> split sep s = [s]"
  by (induction s) auto

lemma split_append: "sep \<notin> set u \<Longrightarrow> split sep (u @ sep # v) = u # split sep v"
  by (induction u) auto

lemma hd_split: "hd (split sep s) = takeWhile (\<lambda>c. c \<noteq> sep) s"
  by (induction s) simp_all

lemma takeWhile_neq_self: "x \<in> set s \<Longrightarrow> takeWhile (\<lambda>c. c \<noteq> x) s \<noteq> s"
  by (metis (mono_tags, lifting) takeWhile_eq_all_conv)

lemma of_char_digit_char: "d < 10 \<Longrightarrow> (of_char (digit_char d) :: nat) = 48 + d"
  by (simp add: digit_char_def)

lemma digit_value_digit_char: "d < 10 \<Longrightarrow> digit_value (digit_char d) = Some d"
  by (simp add: digit_value_def of_char_digit_char)

lemma is_digit_digit_char: "d < 10 \<Longrightarrow> is_digit 10 (digit_char d)"
  by (simp add: is_digit_def digit_value_digit_char)

lemma nat_to_string_digits: "c \<in> set (nat_to_string n) \<Longrightarrow> \<exists>d<10. c = digit_char d"
proof (induction n rule: nat_to_string.induct)
  case (1 n)
  show ?case
  proof (cases "n < 10")
    case True
    with 1(2) show ?thesis by (auto simp: nat_to_string_small)
  next
    case False
    then have "10 \<le> n" by simp
    with 1(2) have "c \<in> set (nat_to_string (n div 10)) \<or> c = digit_char (n mod 10)"
      by (auto simp: nat_to_string_big)
    then show ?thesis
    proof
      assume "c \<in> set (nat_to_string (n div 10))"
      with 1(1) [OF False] show ?thesis .
    next
      assume "c = digit_char (n mod 10)"
      moreover have "n mod 10 < 10" by simp
      ultimately show ?thesis by blast
    qed
  qed
qed

lemma digits_value_snoc:
  "digits_value r (ds @ [c]) = digits_value r ds * r + the (digit_value c)"
  by (simp add: digits_value_def)

lemma digits_value_nat_to_string: "digits_value 10 (nat_to_string n) = n"
proof (induction n rule: nat_to_string.induct)
  case (1 n)
  show ?case
  proof (cases "n < 10")
    case True
    then show ?thesis
      by (simp add: nat_to_string_small digits_value_def digit_value_digit_char)
  next
    case False
    then have big: "10 \<le> n" by simp
    have "n mod 10 < 10" by simp
    then have "the (digit_value (digit_char (n mod 10))) = n mod 10"
      by (simp add: digit_value_digit_char)
    with 1 [OF False] show ?thesis
      by (simp add: nat_to_string_big [OF big] digits_value_snoc)
  qed
qed

lemma takeWhile_digits: "takeWhile (is_digit 10) (nat_to_string n) = nat_to_string n"
  by (rule takeWhile_eq_all_conv [THEN iffD2])
     (auto dest!: nat_to_string_digits simp: is_digit_digit_char)

lemma parse_digits_nat_to_string: "parse_digits 10 (nat_to_string n) = Some n"
  by (simp add: parse_digits_def takeWhile_digits nat_to_string_nonempty
        digits_value_nat_to_string)

lemma ws_len_digit: "d < 10 \<Longrightarrow> ws_len (digit_char d # s) = 0"
  by (auto simp: ws_len_def Let_def of_char_digit_char)

lemma ws_len_minus: "ws_len (CHR ''-'' # s) = 0"
  by (auto simp: ws_len_def Let_def)

lemma nat_to_string_hd: "\<exists>d<10. \<exists>rest. nat_to_string n = digit_char d # rest"
proof -
  obtain c rest where eq: "nat_to_string n = c # rest"
    using nat_to_string_nonempty [of n] by (cases "nat_to_string n") auto
  then have "c \<in> set (nat_to_string n)" by simp
  then obtain d where "d < 10" "c = digit_char d"
    using nat_to_string_digits by blast
  with eq show ?thesis by blast
qed

lemma digit_char_not_sign:
  "d < 10 \<Longrightarrow> digit_char d \<noteq> CHR ''-'' \<and> digit_char d \<noteq> CHR ''+''
      \<and> digit_char d \<noteq> CHR ''x'' \<and> digit_char d \<noteq> CHR ''X'' \<and> digit_char d \<noteq> CHR '':''"
  by (auto simp: digit_char_def char_code)

lemma not_hex_prefix:
  "take 2 (nat_to_string n) \<noteq> ''0x'' \<and> take 2 (nat_to_string n) \<noteq> ''0X''"
proof -
  have "\<forall>c \<in> set (take 2 (nat_to_string n)). c \<noteq> CHR ''x'' \<and> c \<noteq> CHR ''X''"
    using nat_to_string_digits digit_char_not_sign by (metis in_set_takeD)
  then show ?thesis by force
qed

lemma parseInt_nat_to_string: "parseInt (nat_to_string n) = Some (int n)"
proof -
  let ?s = "nat_to_string n"
  obtain d rest where d: "d < 10" "?s = digit_char d # rest"
    using nat_to_string_hd by blast
  have t: "trim_start ?s = ?s"
    by (subst trim_start.simps) (simp add: d ws_len_digit)
  have e: "(take 1 ?s = ''-'') = False" "(take 1 ?s = ''+'') = False"
    using digit_char_not_sign [OF d(1)] by (simp_all add: d(2))
  have h: "(take 2 ?s = ''0x'') = False" "(take 2 ?s = ''0X'') = False"
    using not_hex_prefix [of n] by simp_all
  show ?thesis
    by (simp only: parseInt_def Let_def t e h if_False simp_thms
          parse_digits_nat_to_string option.map)
qed

lemma parseInt_minus_nat_to_string:
  "parseInt (CHR ''-'' # nat_to_string n) = Some (- int n)"
proof -
  let ?s = "CHR ''-'' # nat_to_string n"
  have t: "trim_start ?s = ?s"
    by (subst trim_start.simps) (simp add: ws_len_minus)
  have e: "(take 1 ?s = ''-'') = True" "drop 1 ?s = nat_to_string n"
    by simp_all
  have h: "(take 2 (nat_to_string n) = ''0x'') = False"
    "(take 2 (nat_to_string n) = ''0X'') = False"
    using not_hex_prefix [of n] by simp_all
  show ?thesis
    by (simp only: parseInt_def Let_def t e h if_True if_False simp_thms
          parse_digits_nat_to_string option.map)
qed

lemma parseInt_number_to_string: "parseInt (number_to_string i) = Some i"
  by (simp add: number_to_string_def parseInt_nat_to_string parseInt_minus_nat_to_string)

lemma parseInt_undefined: "parseInt ''undefined'' = None"
proof -
  have "ws_len ''undefined'' = 0" by (simp add: ws_len_def Let_def)
  then have t: "trim_start ''undefined'' = ''undefined''"
    by (subst trim_start.simps) simp
  show ?thesis
    by (simp add: parseInt_def t Let_def parse_digits_def is_digit_def digit_value_def)
qed

lemma nat_to_string_no_colon: "CHR '':'' \<notin> set (nat_to_string n)"
proof
  assume "CHR '':'' \<in> set (nat_to_string n)"
  then obtain d where "d < 10" "CHR '':'' = digit_char d"
    using nat_to_string_digits by blast
  then show False using digit_char_not_sign [of d] by simp
qed

lemma number_to_string_no_colon: "CHR '':'' \<notin> set (number_to_string i)"
  by (simp add: number_to_string_def nat_to_string_no_colon)

lemma nat_to_string_ascii: "c \<in> set (nat_to_string n) \<Longrightarrow> (of_char c :: nat) < 128"
proof -
  assume "c \<in> set (nat_to_string n)"
  then obtain d where "d < 10" "c = digit_char d"
    using nat_to_string_digits by blast
  then show ?thesis by (simp add: of_char_digit_char)
qed

lemma number_to_string_ascii: "c \<in> set (number_to_string i) \<Longrightarrow> (of_char c :: nat) < 128"
  by (auto simp: number_to_string_def nat_to_string_ascii split: if_splits)

section \<open>Well-formed text survives \<^verbatim>\<open>toString()\<close>\<close>

text \<open>
  A byte string that \<^verbatim>\<open>toString()\<close> leaves unchanged is well-formed UTF-8, the form of
  every JavaScript string without lone surrogates. Decoding such a string followed by more
  bytes keeps the string and decodes the rest.
\<close>

lemma buffer_to_string_ascii:
  "\<forall>c \<in> set s. (of_char c :: nat) < 128 \<Longrightarrow> buffer_to_string s = s"
  by (induction s) (simp_all add: Let_def)

lemma replacement_bytes:
  "replacement = [c1, c2, c3] \<longleftrightarrow>
     (of_char c1 :: nat) = 0xEF \<and> (of_char c2 :: nat) = 0xBF \<and> (of_char c3 :: nat) = 0xBD"
  by (auto simp: replacement_def char_code)

lemma replacement_Cons:
  "replacement @ r = b # bs \<longleftrightarrow>
     (of_char b :: nat) = 0xEF \<and> bs = [char_of (0xBF :: nat), char_of (0xBD :: nat)] @ r"
  by (auto simp: replacement_def char_code)

lemma buffer_to_string_append:
  "buffer_to_string u = u \<Longrightarrow> buffer_to_string (u @ v) = u @ buffer_to_string v"
proof (induction "length u" arbitrary: u rule: less_induct)
  case less
  note ih = less.hyps
  show ?case
  proof (cases u)
    case Nil
    then show ?thesis by simp
  next
    case (Cons b bs)
    let ?x = "of_char b :: nat"
    consider (ascii) "?x < 0x80"
      | (two) "0xC2 \<le> ?x" "?x \<le> 0xDF"
      | (three) "0xE0 \<le> ?x" "?x \<le> 0xEF"
      | (four) "0xF0 \<le> ?x" "?x \<le> 0xF4"
      | (bad) "0x80 \<le> ?x" "?x < 0xC2 \<or> 0xF4 < ?x"
      by linarith
    then show ?thesis
    proof cases
      case ascii
      with less.prems Cons have "buffer_to_string bs = bs" by (simp add: Let_def)
      with ih [of bs] Cons have "buffer_to_string (bs @ v) = bs @ buffer_to_string v" by simp
      with ascii Cons show ?thesis by (simp add: Let_def)
    next
      case two
      with less.prems Cons obtain c cs where bs: "bs = c # cs" "in_range 0x80 0xBF c"
        "buffer_to_string cs = cs"
        by (auto simp: Let_def replacement_def char_code split: list.splits if_splits)
      with ih [of cs] Cons have "buffer_to_string (cs @ v) = cs @ buffer_to_string v" by simp
      with two Cons bs show ?thesis by (simp add: Let_def)
    next
      case three
      with less.prems Cons obtain c d ds where bs: "bs = c # d # ds"
        "in_range (second_lo ?x) (second_hi ?x) c" "in_range 0x80 0xBF d"
        "buffer_to_string ds = ds"
        by (auto simp: Let_def replacement_def char_code in_range_def second_lo_def
              second_hi_def split: list.splits if_splits)
      with ih [of ds] Cons have "buffer_to_string (ds @ v) = ds @ buffer_to_string v" by simp
      with three Cons bs show ?thesis by (simp add: Let_def)
    next
      case four
      with less.prems Cons obtain c d e es where bs: "bs = c # d # e # es"
        "in_range (second_lo ?x) (second_hi ?x) c" "in_range 0x80 0xBF d"
        "in_range 0x80 0xBF e" "buffer_to_string es = es"
        by (auto simp: Let_def replacement_def char_code split: list.splits if_splits)
      with ih [of es] Cons have "buffer_to_string (es @ v) = es @ buffer_to_string v" by simp
      with four Cons bs show ?thesis by (simp add: Let_def)
    next
      case bad
      with less.prems Cons have False
        by (auto simp: Let_def replacement_def char_code split: if_splits)
      then show ?thesis ..
    qed
  qed
qed

section \<open>The verifier on a Bearer header\<close>

lemma split_Bearer: "split CHR '' '' (''Bearer '' @ t) = ''Bearer'' # split CHR '' '' t"
  by simp

lemma bearer_token_defined:
  assumes "startsWith h ''Bearer ''"
  shows "element (split CHR '' '' h) 1 = Some (hd (split CHR '' '' (drop 7 h)))"
proof -
  have len: "length ''Bearer '' = 7" by simp
  from assms have "take (length ''Bearer '') h = ''Bearer ''" by (simp only: startsWith_def)
  then have "take 7 h = ''Bearer ''" by (simp only: len)
  then have "''Bearer '' @ drop 7 h = h" by (metis append_take_drop_id)
  then have "split CHR '' '' h = ''Bearer'' # split CHR '' '' (drop 7 h)"
    using split_Bearer [of "drop 7 h"] by simp
  moreover obtain p ps where "split CHR '' '' (drop 7 h) = p # ps"
    using split_nonempty [of "CHR '' ''" "drop 7 h"] by (cases "split CHR '' '' (drop 7 h)") auto
  ultimately show ?thesis by simp
qed

lemma bearer_token:
  "CHR '' '' \<notin> set t \<Longrightarrow> element (split CHR '' '' (''Bearer '' @ t)) 1 = Some t"
  by (simp add: split_no_sep)

lemma startsWith_Bearer: "startsWith (''Bearer '' @ t) ''Bearer ''"
  by (simp add: startsWith_def)

lemma verify_bearer:
  assumes "CHR '' '' \<notin> set tok"
  shows "verifyAdminSession cfg now (bearer tok) =
     (if hd (split CHR '':'' (buffer_to_string (base64_decode tok))) = ADMIN_USERNAME cfg
         \<and> (case token_age now (element (split CHR '':'' (buffer_to_string (base64_decode tok))) 1)
              of None \<Rightarrow> False | Some age \<Rightarrow> age < maxAge)
      then Next else session_error ''Invalid or expired session'')"
proof -
  have a: "authorization (bearer tok) = Some (''Bearer '' @ tok)"
    by (simp add: bearer_def)
  have n: "(''Bearer '' @ tok = []) = False" by simp
  have s: "startsWith (''Bearer '' @ tok) ''Bearer '' = True"
    by (simp add: startsWith_def)
  show ?thesis
    unfolding verifyAdminSession_def a
    by (simp only: option.case n s bearer_token [OF assms] Let_def simp_thms if_False)
qed

lemma decoded_issued:
  assumes "buffer_to_string u = u"
  shows "buffer_to_string (base64_decode (issue_token u t)) = u @ CHR '':'' # number_to_string t"
proof -
  have "\<forall>c \<in> set (CHR '':'' # number_to_string t). (of_char c :: nat) < 128"
    using number_to_string_ascii by auto
  then have "buffer_to_string (CHR '':'' # number_to_string t) = CHR '':'' # number_to_string t"
    by (rule buffer_to_string_ascii)
  with buffer_to_string_append [OF assms, of "CHR '':'' # number_to_string t"]
  show ?thesis
    by (simp add: issue_token_def base64_roundtrip)
qed

lemma issue_token_no_space: "CHR '' '' \<notin> set (issue_token u t)"
  by (simp add: issue_token_def base64_encode_no_space)

lemma token_age_Some: "token_age now (Some text) = map_option (\<lambda>t. now - t) (parseInt text)"
  by (simp add: token_age_def)

lemma token_age_None: "token_age now None = None"
  by (simp add: token_age_def parseInt_undefined)

lemma verify_issued:
  assumes "buffer_to_string u = u" and "CHR '':'' \<notin> set u"
  shows "verifyAdminSession cfg now (bearer (issue_token u t)) =
     (if u = ADMIN_USERNAME cfg \<and> now - t < maxAge
      then Next else session_error ''Invalid or expired session'')"
proof -
  have "split CHR '':'' (u @ CHR '':'' # number_to_string t) = [u, number_to_string t]"
    by (simp add: split_append [OF assms(2)] split_no_sep number_to_string_no_colon)
  then show ?thesis
    by (simp add: verify_bearer [OF issue_token_no_space] decoded_issued [OF assms(1)]
          token_age_Some parseInt_number_to_string)
qed

lemma verify_issued_colon:
  assumes "buffer_to_string u = u" and "CHR '':'' \<in> set u" and "ADMIN_USERNAME cfg = u"
  shows "verifyAdminSession cfg now (bearer (issue_token u t))
           = session_error ''Invalid or expired session''"
proof -
  have "hd (split CHR '':'' (u @ CHR '':'' # number_to_string t))
          = takeWhile (\<lambda>c. c \<noteq> CHR '':'') u"
    using assms(2) by (simp add: hd_split takeWhile_append1)
  moreover have "takeWhile (\<lambda>c. c \<noteq> CHR '':'') u \<noteq> u"
    using assms(2) by (rule takeWhile_neq_self)
  ultimately have "hd (split CHR '':'' (u @ CHR '':'' # number_to_string t))
      \<noteq> ADMIN_USERNAME cfg"
    using assms(3) by simp
  then show ?thesis
    by (simp only: verify_bearer [OF issue_token_no_space] decoded_issued [OF assms(1)]
          simp_thms if_False)
qed

lemma verify_accept_iff:
  assumes "CHR '' '' \<notin> set tok"
  shows "verifyAdminSession cfg now (bearer tok) = Next \<longleftrightarrow>
     (\<exists>username timestamp rest t.
        split CHR '':'' (buffer_to_string (base64_decode tok)) = username # timestamp # rest
        \<and> username = ADMIN_USERNAME cfg \<and> parseInt timestamp = Some t
        \<and> now - t < 24 * 60 * 60 * 1000)"
proof -
  let ?parts = "split CHR '':'' (buffer_to_string (base64_decode tok))"
  obtain p ps where parts: "?parts = p # ps"
    using split_nonempty [of "CHR '':''" "buffer_to_string (base64_decode tok)"]
    by (cases ?parts) auto
  show ?thesis
  proof (cases ps)
    case Nil
    with parts show ?thesis
      by (simp add: verify_bearer [OF assms] token_age_None session_error_def)
  next
    case (Cons q r)
    with parts show ?thesis
      by (auto simp: verify_bearer [OF assms] token_age_Some session_error_def maxAge_def
            split: option.splits)
  qed
qed

lemma verify_total:
  "verifyAdminSession cfg now req = Next
   \<or> (\<exists>msg. verifyAdminSession cfg now req
              = Rejected \<lparr>status = 401, content = JObj [(''error'', JStr msg)]\<rparr>)"
  by (auto simp: verifyAdminSession_def session_error_def Let_def split: option.splits)

lemma verify_never_invalid_token:
  "verifyAdminSession cfg now req \<noteq> session_error ''Invalid session token''"
proof (cases "authorization req")
  case None
  then show ?thesis by (simp add: verifyAdminSession_def session_error_def)
next
  case (Some h)
  show ?thesis
  proof (cases "h = [] \<or> \<not> startsWith h ''Bearer ''")
    case True
    with Some show ?thesis by (auto simp: verifyAdminSession_def session_error_def)
  next
    case False
    then have "startsWith h ''Bearer ''" by simp
    from bearer_token_defined [OF this] Some False show ?thesis
      by (simp add: verifyAdminSession_def session_error_def Let_def)
  qed
qed

section \<open>Properties of the session verifier\<close>

lemma guarded_Next: "verifyAdminSession cfg now req = Next \<Longrightarrow> guarded cfg now req h = h"
  by (simp add: guarded_def)

lemma ascii_admin: "buffer_to_string ''admin'' = ''admin''"
  by (rule buffer_to_string_ascii) simp

text \<open>
  C4. The session verifier lets a Bearer token through if and only if the text that the
  token's base64 decoding gives splits on \<^verbatim>\<open>:\<close> into a first piece equal to the configured
  admin username and a second piece that \<^verbatim>\<open>parseInt\<close> reads as a timestamp with
  \<open>now - timestamp\<close> strictly below 24 hours (further pieces are ignored). A token of
  the admin whose timestamp is \<open>now - 24h - 1s\<close> is rejected with 401, one whose
  timestamp is \<open>now - 23h59m\<close> is accepted. The verifier is total: on every request it
  either calls \<^verbatim>\<open>next()\<close> or answers 401 with an error message; no token makes it fail.
\<close>

theorem verifier_accepts_iff:
  "(\<forall>tok. CHR '' '' \<notin> set tok \<longrightarrow>
      (verifyAdminSession cfg now (bearer tok) = Next \<longleftrightarrow>
        (\<exists>username timestamp rest t.
           split CHR '':'' (buffer_to_string (base64_decode tok)) = username # timestamp # rest
           \<and> username = ADMIN_USERNAME cfg \<and> parseInt timestamp = Some t
           \<and> now - t < 24 * 60 * 60 * 1000)))
   \<and> (\<forall>tok timestamp rest.
        CHR '' '' \<notin> set tok
        \<and> split CHR '':'' (buffer_to_string (base64_decode tok))
            = ADMIN_USERNAME cfg # timestamp # rest
        \<and> parseInt timestamp = Some (now - 24 * 60 * 60 * 1000 - 1000)
        \<longrightarrow> verifyAdminSession cfg now (bearer tok)
            = Rejected \<lparr>status = 401,
                        content = JObj [(''error'', JStr ''Invalid or expired session'')]\<rparr>)
   \<and> (\<forall>tok timestamp rest.
        CHR '' '' \<notin> set tok
        \<and> split CHR '':'' (buffer_to_string (base64_decode tok))
            = ADMIN_USERNAME cfg # timestamp # rest
        \<and> parseInt timestamp = Some (now - (23 * 60 + 59) * 60 * 1000)
        \<longrightarrow> verifyAdminSession cfg now (bearer tok) = Next)
   \<and> (\<forall>req. verifyAdminSession cfg now req = Next
          \<or> (\<exists>msg. verifyAdminSession cfg now req
                = Rejected \<lparr>status = 401, content = JObj [(''error'', JStr msg)]\<rparr>))"
proof (intro conjI allI impI)
  fix tok
  assume "CHR '' '' \<notin> set tok"
  then show "verifyAdminSession cfg now (bearer tok) = Next \<longleftrightarrow>
        (\<exists>username timestamp rest t.
           split CHR '':'' (buffer_to_string (base64_decode tok)) = username # timestamp # rest
           \<and> username = ADMIN_USERNAME cfg \<and> parseInt timestamp = Some t
           \<and> now - t < 24 * 60 * 60 * 1000)"
    by (rule verify_accept_iff)
next
  fix tok timestamp rest
  assume a: "CHR '' '' \<notin> set tok
        \<and> split CHR '':'' (buffer_to_string (base64_decode tok))
            = ADMIN_USERNAME cfg # timestamp # rest
        \<and> parseInt timestamp = Some (now - 24 * 60 * 60 * 1000 - 1000)"
  then show "verifyAdminSession cfg now (bearer tok)
            = Rejected \<lparr>status = 401,
                        content = JObj [(''error'', JStr ''Invalid or expired session'')]\<rparr>"
    by (simp add: verify_bearer token_age_Some maxAge_def session_error_def)
next
  fix tok timestamp rest
  assume a: "CHR '' '' \<notin> set tok
        \<and> split CHR '':'' (buffer_to_string (base64_decode tok))
            = ADMIN_USERNAME cfg # timestamp # rest
        \<and> parseInt timestamp = Some (now - (23 * 60 + 59) * 60 * 1000)"
  then show "verifyAdminSession cfg now (bearer tok) = Next"
    by (simp add: verify_bearer token_age_Some maxAge_def)
next
  fix req
  show "verifyAdminSession cfg now req = Next
          \<or> (\<exists>msg. verifyAdminSession cfg now req
                = Rejected \<lparr>status = 401, content = JObj [(''error'', JStr msg)]\<rparr>)"
    by (rule verify_total)
qed

theorem verifier_accepts_iff_witness:
  "verifyAdminSession demo_config 1700000000000 (bearer (issue_token ''admin'' 1699913599000))
     = Rejected \<lparr>status = 401,
                 content = JObj [(''error'', JStr ''Invalid or expired session'')]\<rparr>
   \<and> verifyAdminSession demo_config 1700000000000
         (bearer (issue_token ''admin'' 1699913660000)) = Next"
proof -
  have old: "CHR '' '' \<notin> set (issue_token ''admin'' 1699913599000)
        \<and> split CHR '':'' (buffer_to_string (base64_decode (issue_token ''admin'' 1699913599000)))
            = ADMIN_USERNAME demo_config # number_to_string 1699913599000 # []
        \<and> parseInt (number_to_string 1699913599000)
            = Some (1700000000000 - 24 * 60 * 60 * 1000 - 1000)"
    by (simp add: issue_token_no_space decoded_issued [OF ascii_admin] split_append
          split_no_sep number_to_string_no_colon parseInt_number_to_string demo_config_def)
  have fresh: "CHR '' '' \<notin> set (issue_token ''admin'' 1699913660000)
        \<and> split CHR '':'' (buffer_to_string (base64_decode (issue_token ''admin'' 1699913660000)))
            = ADMIN_USERNAME demo_config # number_to_string 1699913660000 # []
        \<and> parseInt (number_to_string 1699913660000)
            = Some (1700000000000 - (23 * 60 + 59) * 60 * 1000)"
    by (simp add: issue_token_no_space decoded_issued [OF ascii_admin] split_append
          split_no_sep number_to_string_no_colon parseInt_number_to_string demo_config_def)
  note t = verifier_accepts_iff [of demo_config 1700000000000]
  from t old fresh show ?thesis by blast
qed

text \<open>
  C6. The claim gives the message \<^verbatim>\<open>"Invalid session token"\<close> to tokens whose decoding
  fails, as the \<^verbatim>\<open>catch\<close> clause of the verifier intends. The code never sends it:
  \<^verbatim>\<open>Buffer.from(token, "base64")\<close> does not throw on any string, so the
  \<^verbatim>\<open>catch\<close> clause is unreachable. A token that is not base64 at all, such as
  \<^verbatim>\<open>%%%\<close>, decodes to the empty text and is answered with
  \<^verbatim>\<open>"Invalid or expired session"\<close>.
\<close>

theorem verifier_never_reports_decode_failure:
  "(\<forall>cfg now req. verifyAdminSession cfg now req
       \<noteq> Rejected \<lparr>status = 401,
                    content = JObj [(''error'', JStr ''Invalid session token'')]\<rparr>)
   \<and> base64_decode ''%%%'' = []
   \<and> verifyAdminSession demo_config 0 (bearer ''%%%'')
       = Rejected \<lparr>status = 401,
                   content = JObj [(''error'', JStr ''Invalid or expired session'')]\<rparr>"
proof (intro conjI allI)
  fix cfg now req
  show "verifyAdminSession cfg now req
       \<noteq> Rejected \<lparr>status = 401,
                    content = JObj [(''error'', JStr ''Invalid session token'')]\<rparr>"
    using verify_never_invalid_token [of cfg now req] by (simp add: session_error_def)
next
  show d: "base64_decode ''%%%'' = []"
    by (simp add: base64_decode_def sextets_def unbase64_def List.map_filter_simps)
  have "CHR '' '' \<notin> set ''%%%''" by simp
  from verify_bearer [OF this, of demo_config 0]
  show "verifyAdminSession demo_config 0 (bearer ''%%%'')
       = Rejected \<lparr>status = 401,
                   content = JObj [(''error'', JStr ''Invalid or expired session'')]\<rparr>"
    by (simp add: d session_error_def demo_config_def)
qed

lemma login_token:
  assumes "admin_login cfg t req = Inr r"
    and "property (content r) ''token'' = Some (JStr tok)"
  shows "tok = issue_token (ADMIN_USERNAME cfg) t"
  using assms
  by (auto simp: admin_login_def invalid_credentials_def
        split: option.splits json.splits if_splits)

text \<open>
  C9. Round trip of the admin session: a token that the login operation issued at time
  \<open>issued\<close>, presented at a time \<open>later\<close> with \<open>later - issued\<close> strictly below 24
  hours, is accepted by the verifier when the admin username contains no \<^verbatim>\<open>:\<close>; when
  the admin username contains a \<^verbatim>\<open>:\<close>, the issued token is rejected. (The login
  operation issues tokens only for the configured admin username, which is well-formed
  text.)
\<close>

theorem issued_token_round_trip:
  assumes "admin_login cfg issued req = Inr r"
    and "property (content r) ''token'' = Some (JStr tok)"
    and "buffer_to_string (ADMIN_USERNAME cfg) = ADMIN_USERNAME cfg"
  shows "(CHR '':'' \<notin> set (ADMIN_USERNAME cfg) \<and> later - issued < 24 * 60 * 60 * 1000
            \<longrightarrow> verifyAdminSession cfg later (bearer tok) = Next)
    \<and> (CHR '':'' \<in> set (ADMIN_USERNAME cfg)
            \<longrightarrow> verifyAdminSession cfg later (bearer tok)
                = Rejected \<lparr>status = 401,
                    content = JObj [(''error'', JStr ''Invalid or expired session'')]\<rparr>)"
proof -
  have tok: "tok = issue_token (ADMIN_USERNAME cfg) issued"
    using assms(1,2) by (rule login_token)
  show ?thesis
  proof (intro conjI impI)
    assume "CHR '':'' \<notin> set (ADMIN_USERNAME cfg) \<and> later - issued < 24 * 60 * 60 * 1000"
    then show "verifyAdminSession cfg later (bearer tok) = Next"
      by (simp add: tok verify_issued [OF assms(3)] maxAge_def)
  next
    assume "CHR '':'' \<in> set (ADMIN_USERNAME cfg)"
    from verify_issued_colon [OF assms(3) this refl]
    show "verifyAdminSession cfg later (bearer tok)
                = Rejected \<lparr>status = 401,
                    content = JObj [(''error'', JStr ''Invalid or expired session'')]\<rparr>"
      by (simp add: tok session_error_def)
  qed
qed

theorem issued_token_round_trip_witness:
  "verifyAdminSession demo_config 1700003600000
      (bearer (issue_token ''admin'' 1700000000000)) = Next
   \<and> verifyAdminSession (demo_config\<lparr>ADMIN_USERNAME := ''ad:min''\<rparr>) 1700003600000
        (bearer (issue_token ''ad:min'' 1700000000000))
       = Rejected \<lparr>status = 401,
                   content = JObj [(''error'', JStr ''Invalid or expired session'')]\<rparr>"
proof -
  let ?req = "login_request (JStr ''admin'') (JStr ''hunter2'')"
  let ?r = "\<lparr>status = 200,
             content = JObj [(''success'', JBool True),
                             (''token'', JStr (issue_token ''admin'' 1700000000000)),
                             (''message'', JStr ''Login successful'')]\<rparr>"
  have l: "admin_login demo_config 1700000000000 ?req = Inr ?r"
    "property (content ?r) ''token'' = Some (JStr (issue_token ''admin'' 1700000000000))"
    "buffer_to_string (ADMIN_USERNAME demo_config) = ADMIN_USERNAME demo_config"
    by (simp_all add: admin_login_def login_request_def demo_config_def ascii_admin)
  have c: "CHR '':'' \<notin> set (ADMIN_USERNAME demo_config)
           \<and> (1700003600000 :: int) - 1700000000000 < 24 * 60 * 60 * 1000"
    by (simp add: demo_config_def)
  let ?cfg = "demo_config\<lparr>ADMIN_USERNAME := ''ad:min''\<rparr>"
  let ?req' = "login_request (JStr ''ad:min'') (JStr ''hunter2'')"
  let ?r' = "\<lparr>status = 200,
             content = JObj [(''success'', JBool True),
                             (''token'', JStr (issue_token ''ad:min'' 1700000000000)),
                             (''message'', JStr ''Login successful'')]\<rparr>"
  have "buffer_to_string ''ad:min'' = ''ad:min''"
    by (rule buffer_to_string_ascii) simp
  then have l': "admin_login ?cfg 1700000000000 ?req' = Inr ?r'"
    "property (content ?r') ''token'' = Some (JStr (issue_token ''ad:min'' 1700000000000))"
    "buffer_to_string (ADMIN_USERNAME ?cfg) = ADMIN_USERNAME ?cfg"
    by (simp_all add: admin_login_def login_request_def demo_config_def)
  have c': "CHR '':'' \<in> set (ADMIN_USERNAME ?cfg)"
    by simp
  from issued_token_round_trip [OF l, of 1700003600000] c
  have "verifyAdminSession demo_config 1700003600000
          (bearer (issue_token ''admin'' 1700000000000)) = Next"
    by blast
  moreover
  from issued_token_round_trip [OF l', of 1700003600000] c'
  have "verifyAdminSession ?cfg 1700003600000 (bearer (issue_token ''ad:min'' 1700000000000))
       = Rejected \<lparr>status = 401,
                   content = JObj [(''error'', JStr ''Invalid or expired session'')]\<rparr>"
    by blast
  ultimately show ?thesis by simp
qed

text \<open>
  C10. The verifier accepts tokens whose timestamp lies in the future: for every token
  whose decoded text gives the admin username and a timestamp strictly greater than the
  current time, the age is negative, the check \<open>now - timestamp < 24h\<close> holds, and the
  guarded operation runs. There is no upper bound: a token of the admin with any
  timestamp \<open>t > now\<close> is accepted.
\<close>

theorem verifier_accepts_future_timestamps:
  "(\<forall>tok timestamp rest t.
      CHR '' '' \<notin> set tok
      \<and> split CHR '':'' (buffer_to_string (base64_decode tok))
          = ADMIN_USERNAME cfg # timestamp # rest
      \<and> parseInt timestamp = Some t \<and> now < t
      \<longrightarrow> verifyAdminSession cfg now (bearer tok) = Next
          \<and> get_admin_account cfg now upstream (bearer tok) = admin_account cfg upstream)
   \<and> (buffer_to_string (ADMIN_USERNAME cfg) = ADMIN_USERNAME cfg
        \<and> CHR '':'' \<notin> set (ADMIN_USERNAME cfg)
      \<longrightarrow> (\<forall>t. now < t
            \<longrightarrow> verifyAdminSession cfg now (bearer (issue_token (ADMIN_USERNAME cfg) t))
                = Next))"
proof (intro conjI allI impI)
  fix tok timestamp rest t
  assume a: "CHR '' '' \<notin> set tok
      \<and> split CHR '':'' (buffer_to_string (base64_decode tok))
          = ADMIN_USERNAME cfg # timestamp # rest
      \<and> parseInt timestamp = Some t \<and> now < t"
  then show v: "verifyAdminSession cfg now (bearer tok) = Next"
    by (simp add: verify_bearer token_age_Some maxAge_def)
  then show "get_admin_account cfg now upstream (bearer tok) = admin_account cfg upstream"
    by (simp add: get_admin_account_def guarded_Next)
next
  fix t
  assume "buffer_to_string (ADMIN_USERNAME cfg) = ADMIN_USERNAME cfg
        \<and> CHR '':'' \<notin> set (ADMIN_USERNAME cfg)"
    and "now < t"
  then show "verifyAdminSession cfg now (bearer (issue_token (ADMIN_USERNAME cfg) t)) = Next"
    by (simp add: verify_issued maxAge_def)
qed

theorem verifier_accepts_future_timestamps_witness:
  "verifyAdminSession demo_config 1700000000000
      (bearer (issue_token ''admin'' 99999999999999999)) = Next"
proof -
  have h: "buffer_to_string (ADMIN_USERNAME demo_config) = ADMIN_USERNAME demo_config
        \<and> CHR '':'' \<notin> set (ADMIN_USERNAME demo_config)"
    by (simp add: demo_config_def ascii_admin)
  have f: "(1700000000000 :: int) < 99999999999999999" by simp
  from verifier_accepts_future_timestamps [of demo_config 1700000000000] h f
  have "verifyAdminSession demo_config 1700000000000
          (bearer (issue_token (ADMIN_USERNAME demo_config) 99999999999999999)) = Next"
    by blast
  then show ?thesis by (simp add: demo_config_def)
qed

section \<open>Properties of the login operation\<close>

text \<open>
  C5, as stated, fails for a request whose body the JSON middleware did not parse:
  \<^verbatim>\<open>req.body\<close> is \<^verbatim>\<open>undefined\<close>, the destructuring throws, and the handler, which has
  no \<^verbatim>\<open>try\<close>, sends neither the 200 nor the 401 reply.
\<close>

theorem login_without_body_counterexample:
  "body (bodiless_request None) = None
   \<and> admin_login demo_config 0 (bodiless_request None)
       = Inl ''Cannot destructure property 'username' of 'req.body' as it is undefined.''"
  by (simp add: admin_login_def bodiless_request_def)

text \<open>
  C5 (amended). For every \<^verbatim>\<open>POST /admin/login\<close> request whose body was parsed
  (\<^verbatim>\<open>req.body\<close> neither \<^verbatim>\<open>undefined\<close> nor \<^verbatim>\<open>null\<close>): if \<^verbatim>\<open>username\<close> and
  \<^verbatim>\<open>password\<close> are strings equal to the configured admin values, the reply is HTTP 200
  with \<^verbatim>\<open>{success:true, token, message:"Login successful"}\<close>, where \<^verbatim>\<open>token\<close> is the
  base64 encoding of \<^verbatim>\<open><username>:<Date.now()>\<close>; otherwise the reply is HTTP 401 with
  \<^verbatim>\<open>{success:false, error:"Invalid credentials"}\<close> and no token. When \<^verbatim>\<open>req.body\<close> is
  \<^verbatim>\<open>undefined\<close> or \<^verbatim>\<open>null\<close> the handler throws before it replies. The token decodes
  back to the text it encodes, and the timestamp in it reads back as the time of the call.
\<close>

theorem login_issues_token:
  "(body req = None \<or> body req = Some JNull \<longrightarrow> (\<exists>msg. admin_login cfg now req = Inl msg))
   \<and> (\<forall>b. body req = Some b \<and> b \<noteq> JNull \<longrightarrow>
        (property b ''username'' = Some (JStr (ADMIN_USERNAME cfg))
           \<and> property b ''password'' = Some (JStr (ADMIN_PASSWORD cfg))
         \<longrightarrow> admin_login cfg now req
             = Inr \<lparr>status = 200,
                    content = JObj [(''success'', JBool True),
                      (''token'', JStr (base64_encode
                          (ADMIN_USERNAME cfg @ '':'' @ number_to_string now))),
                      (''message'', JStr ''Login successful'')]\<rparr>)
        \<and> (\<not> (property b ''username'' = Some (JStr (ADMIN_USERNAME cfg))
               \<and> property b ''password'' = Some (JStr (ADMIN_PASSWORD cfg)))
         \<longrightarrow> admin_login cfg now req
             = Inr \<lparr>status = 401,
                    content = JObj [(''success'', JBool False),
                                    (''error'', JStr ''Invalid credentials'')]\<rparr>))
   \<and> base64_decode (base64_encode (ADMIN_USERNAME cfg @ '':'' @ number_to_string now))
       = ADMIN_USERNAME cfg @ '':'' @ number_to_string now
   \<and> parseInt (number_to_string now) = Some now"
proof (intro conjI allI impI)
  assume "body req = None \<or> body req = Some JNull"
  then show "\<exists>msg. admin_login cfg now req = Inl msg"
    by (auto simp: admin_login_def)
next
  fix b
  assume b: "body req = Some b \<and> b \<noteq> JNull"
  {
    assume "property b ''username'' = Some (JStr (ADMIN_USERNAME cfg))
           \<and> property b ''password'' = Some (JStr (ADMIN_PASSWORD cfg))"
    with b show "admin_login cfg now req
             = Inr \<lparr>status = 200,
                    content = JObj [(''success'', JBool True),
                      (''token'', JStr (base64_encode
                          (ADMIN_USERNAME cfg @ '':'' @ number_to_string now))),
                      (''message'', JStr ''Login successful'')]\<rparr>"
      by (cases b) (simp_all add: admin_login_def issue_token_def)
  }
  {
    assume "\<not> (property b ''username'' = Some (JStr (ADMIN_USERNAME cfg))
               \<and> property b ''password'' = Some (JStr (ADMIN_PASSWORD cfg)))"
    with b show "admin_login cfg now req
             = Inr \<lparr>status = 401,
                    content = JObj [(''success'', JBool False),
                                    (''error'', JStr ''Invalid credentials'')]\<rparr>"
      by (cases b)
         (auto simp: admin_login_def invalid_credentials_def split: option.splits json.splits)
  }
next
  show "base64_decode (base64_encode (ADMIN_USERNAME cfg @ '':'' @ number_to_string now))
       = ADMIN_USERNAME cfg @ '':'' @ number_to_string now"
    by (rule base64_roundtrip)
next
  show "parseInt (number_to_string now) = Some now"
    by (rule parseInt_number_to_string)
qed

lemma number_to_string_1700000000000: "number_to_string 1700000000000 = ''1700000000000''"
  by (simp add: number_to_string_def nat_to_string_small nat_to_string_big digit_chars)

lemma base64_admin_1700000000000:
  "base64_encode ''admin:1700000000000'' = ''YWRtaW46MTcwMDAwMDAwMDAwMA==''"
  by code_simp

theorem login_issues_token_witness:
  "admin_login demo_config 1700000000000 (login_request (JStr ''admin'') (JStr ''hunter2''))
     = Inr \<lparr>status = 200,
            content = JObj [(''success'', JBool True),
                            (''token'', JStr ''YWRtaW46MTcwMDAwMDAwMDAwMA==''),
                            (''message'', JStr ''Login successful'')]\<rparr>
   \<and> admin_login demo_config 1700000000000 (login_request (JStr ''admin'') (JStr ''guess''))
     = Inr \<lparr>status = 401,
            content = JObj [(''success'', JBool False),
                            (''error'', JStr ''Invalid credentials'')]\<rparr>"
proof -
  let ?good = "JObj [(''username'', JStr ''admin''), (''password'', JStr ''hunter2'')]"
  let ?bad = "JObj [(''username'', JStr ''admin''), (''password'', JStr ''guess'')]"
  have g: "body (login_request (JStr ''admin'') (JStr ''hunter2'')) = Some ?good \<and> ?good \<noteq> JNull"
    "property ?good ''username'' = Some (JStr (ADMIN_USERNAME demo_config))
       \<and> property ?good ''password'' = Some (JStr (ADMIN_PASSWORD demo_config))"
    by (simp_all add: login_request_def demo_config_def)
  have b: "body (login_request (JStr ''admin'') (JStr ''guess'')) = Some ?bad \<and> ?bad \<noteq> JNull"
    "\<not> (property ?bad ''username'' = Some (JStr (ADMIN_USERNAME demo_config))
       \<and> property ?bad ''password'' = Some (JStr (ADMIN_PASSWORD demo_config)))"
    by (simp_all add: login_request_def demo_config_def)
  have e: "base64_encode (ADMIN_USERNAME demo_config @ '':'' @ number_to_string 1700000000000)
      = ''YWRtaW46MTcwMDAwMDAwMDAwMA==''"
    unfolding number_to_string_1700000000000
    using base64_admin_1700000000000 by (simp add: demo_config_def)
  from login_issues_token
         [of "login_request (JStr ''admin'') (JStr ''hunter2'')" demo_config 1700000000000] g
  have "admin_login demo_config 1700000000000 (login_request (JStr ''admin'') (JStr ''hunter2''))
     = Inr \<lparr>status = 200,
            content = JObj [(''success'', JBool True),
              (''token'', JStr (base64_encode
                 (ADMIN_USERNAME demo_config @ '':'' @ number_to_string 1700000000000))),
              (''message'', JStr ''Login successful'')]\<rparr>"
    by blast
  moreover
  from login_issues_token
         [of "login_request (JStr ''admin'') (JStr ''guess'')" demo_config 1700000000000] b
  have "admin_login demo_config 1700000000000 (login_request (JStr ''admin'') (JStr ''guess''))
     = Inr \<lparr>status = 401,
            content = JObj [(''success'', JBool False),
                            (''error'', JStr ''Invalid credentials'')]\<rparr>"
    by blast
  ultimately show ?thesis by (simp only: e simp_thms)
qed

end
